theory Spec2Isabelle
  imports Main "HOL-Library.Sublist"
begin

section \<open>The backend proxy of \<^verbatim>\<open>thonny/running.py\<close>\<close>

text \<open>
  The development embeds the classes \<^verbatim>\<open>Runner\<close> and \<^verbatim>\<open>CPythonProxy\<close> of
  \<^verbatim>\<open>src/thonny/running.py\<close>. A method that mutates \<^verbatim>\<open>self\<close> takes the proxy and
  returns the updated proxy; a method that can raise returns a pair of the outcome
  (\<open>Inl\<close> the exception, \<open>Inr\<close> the returned value) and the proxy as the exception or the
  return leaves it. A Python name with a leading underscore is written with the prefix
  \<open>u_\<close> (\<^verbatim>\<open>_fetch_next_message\<close> is \<open>u_fetch_next_message\<close>).
\<close>

subsection \<open>Values, messages, commands and exceptions\<close>

text \<open>
  A message is the dictionary-like record \<^verbatim>\<open>parse_message\<close> returns: the code reads it
  with \<^verbatim>\<open>msg["key"]\<close> and \<^verbatim>\<open>"key" in msg\<close>. The values the proxy looks at are strings
  (\<^verbatim>\<open>message_type\<close>, \<^verbatim>\<open>stream_name\<close>, \<^verbatim>\<open>data\<close>, \<^verbatim>\<open>cwd\<close>) and lists of strings
  (\<^verbatim>\<open>path\<close>).
\<close>

datatype pyval = PStr string | PList "string list"

type_synonym msg = "string \<rightharpoonup> pyval"

datatype error =
    UserError string
  | PyException string
  | KeyError string
  | AttributeError string
  | TypeError string
  | ValueError string
  | OSError string
  | BrokenPipeError
  | MalformedMessage string

text \<open>\<^verbatim>\<open>msg[key]\<close>: a missing key raises \<^verbatim>\<open>KeyError\<close>.\<close>

definition getitem :: "msg \<Rightarrow> string \<Rightarrow> error + pyval" where
  "getitem m k = (case m k of None \<Rightarrow> Inl (KeyError k) | Some v \<Rightarrow> Inr v)"

text \<open>
  \<^verbatim>\<open>a += b\<close> on the values of a message: two strings and two lists concatenate, a list
  is extended by the characters of a string, and a string does not take a list.
\<close>

fun iadd :: "pyval \<Rightarrow> pyval \<Rightarrow> error + pyval" where
  "iadd (PStr a) (PStr b) = Inr (PStr (a @ b))"
| "iadd (PList a) (PList b) = Inr (PList (a @ b))"
| "iadd (PList a) (PStr b) = Inr (PList (a @ map (\<lambda>c. [c]) b))"
| "iadd (PStr a) (PList b) = Inl (TypeError ''can only concatenate str (not \"list\") to str'')"

text \<open>
  The command classes of \<^verbatim>\<open>thonny.common\<close> (the module is not among the sources; the
  four classes are the ones \<^verbatim>\<open>running.py\<close> imports and tests with \<^verbatim>\<open>isinstance\<close>). A
  command carries keyword attributes; an attribute that was not given is \<open>None\<close> here
  and \<^verbatim>\<open>hasattr\<close> is False for it.
\<close>

datatype command_class = ToplevelCommand | DebuggerCommand | InputSubmission | InlineCommand

record command =
  cmd_class :: command_class
  command :: "string option"
  filename :: "string option"
  args :: "string list option"
  environment :: "(string \<rightharpoonup> string) option"

subsection \<open>Processes, the proxy and its surroundings\<close>

text \<open>
  A child process as \<^verbatim>\<open>subprocess.Popen\<close> returns it. \<open>p_stdout\<close> and \<open>p_stderr\<close> hold what
  the successive \<^verbatim>\<open>readline()\<close> calls on the pipe are going to return before the end of
  the stream; \<open>p_stdin\<close> holds what was written to the child; \<open>p_finished\<close> says that
  \<^verbatim>\<open>poll()\<close> is not \<^verbatim>\<open>None\<close>.
\<close>

record process =
  p_cmd_line :: "string list"
  p_cwd :: string
  p_env :: "string \<rightharpoonup> string"
  p_stdin :: "string list"
  p_stdout :: "string list"
  p_stderr :: "string list"
  p_finished :: bool

text \<open>
  The fields of \<^verbatim>\<open>CPythonProxy\<close> (\<^verbatim>\<open>_executable\<close>, \<^verbatim>\<open>cwd\<close>, \<^verbatim>\<open>_proc\<close>, \<^verbatim>\<open>_state\<close>,
  \<^verbatim>\<open>_message_queue\<close>, \<^verbatim>\<open>_sys_path\<close>), followed by a log of what the proxy did to the
  operating system and the workbench: the processes created by \<^verbatim>\<open>Popen\<close>, the processes
  \<^verbatim>\<open>kill()\<close> was called on, the functions handed to \<^verbatim>\<open>start_new_thread\<close>, and the events
  given to \<^verbatim>\<open>event_generate\<close>.
\<close>

record proxy =
  executable :: string
  cwd :: pyval
  proc :: "process option"
  state :: "string option"
  message_queue :: "msg list option"
  sys_path :: pyval
  spawned :: "process list"
  killed :: "process list"
  threads :: "string list"
  events :: "(string \<times> msg) list"

text \<open>
  What the proxy calls and does not define: \<^verbatim>\<open>os.environ\<close> (names with their values, in
  iteration order), \<^verbatim>\<open>os.path.exists\<close>, the outcome of \<^verbatim>\<open>_prepare_launcher\<close> (copying
  files; the launcher's path or the exception), \<^verbatim>\<open>subprocess.Popen\<close> (for a command line,
  a working directory and an environment: the exception, or what the child is going to
  print on stdout and stderr and whether it has already exited), the codec
  \<^verbatim>\<open>parse_message\<close> and \<^verbatim>\<open>serialize_message\<close> of \<^verbatim>\<open>thonny.common\<close>, and what the
  constructor reads: the outcome of \<^verbatim>\<open>_get_private_venv_executable()\<close>, the option
  \<^verbatim>\<open>run.working_directory\<close> and \<^verbatim>\<open>os.path.expanduser("~")\<close>.
\<close>

record world =
  environ :: "(string \<times> string) list"
  path_exists :: "string \<Rightarrow> bool"
  prepare_launcher :: "error + string"
  popen :: "string list \<Rightarrow> string \<Rightarrow> (string \<rightharpoonup> string) \<Rightarrow>
              error + (string list \<times> string list \<times> bool)"
  parse_message :: "string \<Rightarrow> error + msg"
  serialize_message :: "command \<Rightarrow> string"
  private_venv_executable :: "error + string"
  working_directory_option :: string
  home :: string

subsection \<open>The message queue: \<^verbatim>\<open>_fetch_next_message\<close> and \<^verbatim>\<open>fetch_next_message\<close>\<close>

definition u_set_state :: "string \<Rightarrow> proxy \<Rightarrow> proxy" where
  "u_set_state s p = (if state p \<noteq> Some s then p\<lparr>state := Some s\<rparr> else p)"

definition get_state :: "proxy \<Rightarrow> string option" where
  "get_state p = state p"

definition get_sys_path :: "proxy \<Rightarrow> pyval" where
  "get_sys_path p = sys_path p"

text \<open>
  The \<^verbatim>\<open>while True\<close> loop of \<^verbatim>\<open>_fetch_next_message\<close> (lines 352-363), for the popped
  message \<open>msg\<close> and the rest of the queue: the outcome and the queue it leaves. The
  conjunction evaluates \<^verbatim>\<open>next_msg["stream_name"]\<close> and \<^verbatim>\<open>msg["stream_name"]\<close> only for a
  \<^verbatim>\<open>ProgramOutput\<close>; an exception leaves \<open>next_msg\<close> popped.
\<close>

fun combine_output :: "msg \<Rightarrow> msg list \<Rightarrow> (error + msg) \<times> msg list" where
  "combine_output msg [] = (Inr msg, [])"
| "combine_output msg (next_msg # q) =
     (case getitem next_msg ''message_type'' of
        Inl e \<Rightarrow> (Inl e, q)
      | Inr t \<Rightarrow>
          if t \<noteq> PStr ''ProgramOutput'' then (Inr msg, next_msg # q)
          else
            (case getitem next_msg ''stream_name'' of
               Inl e \<Rightarrow> (Inl e, q)
             | Inr s' \<Rightarrow>
                 (case getitem msg ''stream_name'' of
                    Inl e \<Rightarrow> (Inl e, q)
                  | Inr s \<Rightarrow>
                      if s' \<noteq> s then (Inr msg, next_msg # q)
                      else
                        (case getitem msg ''data'' of
                           Inl e \<Rightarrow> (Inl e, q)
                         | Inr d \<Rightarrow>
                             (case getitem next_msg ''data'' of
                                Inl e \<Rightarrow> (Inl e, q)
                              | Inr d' \<Rightarrow>
                                  (case iadd d d' of
                                     Inl e \<Rightarrow> (Inl e, q)
                                   | Inr v \<Rightarrow> combine_output (msg(''data'' \<mapsto> v)) q))))))"

definition u_fetch_next_message :: "proxy \<Rightarrow> (error + msg option) \<times> proxy" where
  "u_fetch_next_message p =
     (case message_queue p of
        None \<Rightarrow> (Inr None, p)
      | Some [] \<Rightarrow> (Inr None, p)
      | Some (msg # q) \<Rightarrow>
          (case getitem msg ''message_type'' of
             Inl e \<Rightarrow> (Inl e, p\<lparr>message_queue := Some q\<rparr>)
           | Inr t \<Rightarrow>
               if t = PStr ''ProgramOutput'' then
                 (case combine_output msg q of
                    (Inl e, q') \<Rightarrow> (Inl e, p\<lparr>message_queue := Some q'\<rparr>)
                  | (Inr merged, q') \<Rightarrow> (Inr (Some merged), p\<lparr>message_queue := Some q'\<rparr>))
               else (Inr (Some msg), p\<lparr>message_queue := Some q\<rparr>)))"

definition fetch_next_message :: "proxy \<Rightarrow> (error + msg option) \<times> proxy" where
  "fetch_next_message p =
     (case u_fetch_next_message p of
        (Inl e, p') \<Rightarrow> (Inl e, p')
      | (Inr None, p') \<Rightarrow> (Inr None, p')
      | (Inr (Some msg), p') \<Rightarrow>
          (case getitem msg ''message_type'' of
             Inl e \<Rightarrow> (Inl e, p')
           | Inr t \<Rightarrow>
               if t = PStr ''ToplevelResult'' then
                 (Inr (Some msg), u_set_state ''waiting_toplevel_command'' p')
               else if t = PStr ''DebuggerProgress'' then
                 (Inr (Some msg), u_set_state ''waiting_debug_command'' p')
               else if t = PStr ''InputRequest'' then
                 (Inr (Some msg), u_set_state ''waiting_input'' p')
               else (Inr (Some msg), p')))"

subsection \<open>Killing and starting the child process\<close>

definition kill_current_process :: "proxy \<Rightarrow> proxy" where
  "kill_current_process p =
     (case proc p of
        None \<Rightarrow> p
      | Some pr \<Rightarrow>
          if \<not> p_finished pr
          then p\<lparr>killed := killed p @ [pr], proc := None, message_queue := None\<rparr>
          else p)"

text \<open>\<^verbatim>\<open>str.lower\<close> on the letters A-Z, and the test of lines 484-485.\<close>

definition lower_char :: "char \<Rightarrow> char" where
  "lower_char c =
     (case map_of (zip ''ABCDEFGHIJKLMNOPQRSTUVWXYZ'' ''abcdefghijklmnopqrstuvwxyz'') c of
        None \<Rightarrow> c
      | Some l \<Rightarrow> l)"

definition lower :: "string \<Rightarrow> string" where
  "lower s = map lower_char s"

definition copied :: "string \<Rightarrow> bool" where
  "copied name =
     (\<not> sublist ''python'' (lower name) \<and> name \<notin> set [''TK_LIBRARY'', ''TCL_LIBRARY''])"

text \<open>The loop \<^verbatim>\<open>for name in os.environ\<close> of lines 483-486.\<close>

fun copy_environ ::
  "(string \<times> string) list \<Rightarrow> string list \<Rightarrow> (string \<rightharpoonup> string) \<Rightarrow> (string \<rightharpoonup> string)" where
  "copy_environ env [] my_env = my_env"
| "copy_environ env (name # names) my_env =
     copy_environ env names (if copied name then my_env(name := map_of env name) else my_env)"

text \<open>
  \<^verbatim>\<open>my_env\<close> as \<^verbatim>\<open>Popen\<close> receives it: lines 482-493, and the update of lines 516-517.
\<close>

definition my_env :: "world \<Rightarrow> command \<Rightarrow> (string \<rightharpoonup> string)" where
  "my_env w cmd =
     (let e = (copy_environ (environ w) (map fst (environ w)) Map.empty)
                (''PYTHONIOENCODING'' \<mapsto> ''ASCII'', ''PYTHONUNBUFFERED'' \<mapsto> ''1'')
      in case environment cmd of None \<Rightarrow> e | Some extra \<Rightarrow> e ++ extra)"

text \<open>The command line of lines 502-514.\<close>

definition cmd_line_of :: "string \<Rightarrow> string \<Rightarrow> command \<Rightarrow> string list" where
  "cmd_line_of exe backend_launcher cmd =
     [exe, ''-u'', ''-B'', backend_launcher] @
     (case filename cmd of
        None \<Rightarrow> []
      | Some f \<Rightarrow> f # (case args cmd of None \<Rightarrow> [] | Some a \<Rightarrow> a))"

text \<open>\<^verbatim>\<open>readline()\<close> on a pipe: the next line, or the empty string at the end of the stream.\<close>

fun readline :: "string list \<Rightarrow> string \<times> string list" where
  "readline [] = ([], [])"
| "readline (l # ls) = (l, ls)"

text \<open>
  Lines 531-543 of \<^verbatim>\<open>_start_new_process\<close>, for the process \<open>pr\<close> that \<^verbatim>\<open>Popen\<close> has just
  returned and that \<^verbatim>\<open>self._proc\<close> holds.
\<close>

definition read_ready :: "world \<Rightarrow> process \<Rightarrow> proxy \<Rightarrow> (error + unit) \<times> proxy" where
  "read_ready w pr p =
     (case readline (p_stdout pr) of
        (ready_line, rest) \<Rightarrow>
          if ready_line = [] then
            (Inl (PyException (''Error starting backend process: '' @ concat (p_stderr pr))),
             p\<lparr>proc := Some (pr\<lparr>p_stdout := rest, p_stderr := []\<rparr>)\<rparr>)
          else
            (let p1 = p\<lparr>proc := Some (pr\<lparr>p_stdout := rest\<rparr>)\<rparr> in
             case parse_message w ready_line of
               Inl e \<Rightarrow> (Inl e, p1)
             | Inr ready_msg \<Rightarrow>
                 (case getitem ready_msg ''path'' of
                    Inl e \<Rightarrow> (Inl e, p1)
                  | Inr v \<Rightarrow>
                      (Inr (),
                       p1\<lparr>sys_path := v,
                          events := events p1 @ [(''BackendReady'', ready_msg)],
                          threads := threads p1 @ [''_listen_stdout'', ''_listen_stderr'']\<rparr>))))"

definition u_start_new_process :: "world \<Rightarrow> command \<Rightarrow> proxy \<Rightarrow> (error + unit) \<times> proxy" where
  "u_start_new_process w cmd p0 =
     (let p = p0\<lparr>message_queue := Some []\<rparr> in
      if \<not> path_exists w (executable p) then
        (Inl (UserError (''Interpreter ('' @ executable p @
                '') not found. Please recheck corresponding option!'')), p)
      else
        (case prepare_launcher w of
           Inl e \<Rightarrow> (Inl e, p)
         | Inr backend_launcher \<Rightarrow>
             (case cwd p of
                PList l \<Rightarrow> (Inl (TypeError ''cwd''), p)
              | PStr dir \<Rightarrow>
                  (case popen w (cmd_line_of (executable p) backend_launcher cmd) dir (my_env w cmd) of
                     Inl e \<Rightarrow> (Inl e, p)
                   | Inr (out, err, fin) \<Rightarrow>
                       (let pr = \<lparr>p_cmd_line = cmd_line_of (executable p) backend_launcher cmd,
                                  p_cwd = dir, p_env = my_env w cmd, p_stdin = [],
                                  p_stdout = out, p_stderr = err, p_finished = fin\<rparr>
                        in read_ready w pr (p\<lparr>proc := Some pr, spawned := spawned p @ [pr]\<rparr>))))))"

subsection \<open>\<^verbatim>\<open>send_command\<close>\<close>

text \<open>
  Lines 387-388: \<^verbatim>\<open>self._proc.stdin.write(...)\<close> and \<^verbatim>\<open>flush()\<close>. Without a process the
  attribute access raises; the pipe of a child that has exited is broken.
\<close>

definition stdin_write :: "string \<Rightarrow> proxy \<Rightarrow> (error + unit) \<times> proxy" where
  "stdin_write s p =
     (case proc p of
        None \<Rightarrow> (Inl (AttributeError ''stdin''), p)
      | Some pr \<Rightarrow>
          if p_finished pr then (Inl BrokenPipeError, p)
          else (Inr (), p\<lparr>proc := Some (pr\<lparr>p_stdin := p_stdin pr @ [s]\<rparr>)\<rparr>))"

text \<open>Lines 383-388: the restart for Run, Debug and Reset, then the write.\<close>

definition dispatch :: "world \<Rightarrow> command \<Rightarrow> proxy \<Rightarrow> (error + unit) \<times> proxy" where
  "dispatch w cmd p =
     (if cmd_class cmd = ToplevelCommand then
        (case command cmd of
           None \<Rightarrow> (Inl (AttributeError ''command''), p)
         | Some c \<Rightarrow>
             if c \<in> set [''Run'', ''Debug'', ''Reset''] then
               (case u_start_new_process w cmd (kill_current_process p) of
                  (Inl e, p') \<Rightarrow> (Inl e, p')
                | (Inr u, p') \<Rightarrow> stdin_write (serialize_message w cmd @ [CHR 0x0A]) p')
             else stdin_write (serialize_message w cmd @ [CHR 0x0A]) p)
      else stdin_write (serialize_message w cmd @ [CHR 0x0A]) p)"

text \<open>
  \<^verbatim>\<open>send_command\<close>: line 374 reads \<^verbatim>\<open>cmd.command\<close> of an \<^verbatim>\<open>InlineCommand\<close>; lines 378-381
  set the state; the rest is \<open>dispatch\<close>.
\<close>

definition send_command :: "world \<Rightarrow> command \<Rightarrow> proxy \<Rightarrow> (error + unit) \<times> proxy" where
  "send_command w cmd p =
     (if cmd_class cmd = InlineCommand \<and> command cmd = None then
        (Inl (AttributeError ''command''), p)
      else
        dispatch w cmd
          (if cmd_class cmd = ToplevelCommand \<or> cmd_class cmd = DebuggerCommand
              \<or> cmd_class cmd = InputSubmission
           then u_set_state ''running'' p else p))"

text \<open>
  \<^verbatim>\<open>Runner._advance_background_tk_mainloop\<close> without its rescheduling:
  \<^verbatim>\<open>InlineCommand("tkupdate")\<close> is sent in the state \<^verbatim>\<open>waiting_toplevel_command\<close>.
\<close>

definition tkupdate :: command where
  "tkupdate = \<lparr>cmd_class = InlineCommand, command = Some ''tkupdate'', filename = None,
                args = None, environment = None\<rparr>"

definition u_advance_background_tk_mainloop :: "world \<Rightarrow> proxy \<Rightarrow> (error + unit) \<times> proxy" where
  "u_advance_background_tk_mainloop w p =
     (if get_state p = Some ''waiting_toplevel_command'' then send_command w tkupdate p
      else (Inr (), p))"

subsection \<open>The stdout listener\<close>

text \<open>
  One round of the loop of \<^verbatim>\<open>_listen_stdout\<close> is two steps: line 549 reads a line from
  the stdout of the process \<^verbatim>\<open>self._proc\<close> holds at that moment, and lines 554-559 decode
  it, follow its \<^verbatim>\<open>cwd\<close> and append it to the queue \<^verbatim>\<open>self._message_queue\<close> holds at
  that moment.
\<close>

definition listen_read :: "proxy \<Rightarrow> (error + string) \<times> proxy" where
  "listen_read p =
     (case proc p of
        None \<Rightarrow> (Inl (AttributeError ''stdout''), p)
      | Some pr \<Rightarrow>
          (case readline (p_stdout pr) of
             (data, rest) \<Rightarrow> (Inr data, p\<lparr>proc := Some (pr\<lparr>p_stdout := rest\<rparr>)\<rparr>)))"

definition listen_deliver :: "world \<Rightarrow> string \<Rightarrow> proxy \<Rightarrow> (error + unit) \<times> proxy" where
  "listen_deliver w data p =
     (case parse_message w data of
        Inl e \<Rightarrow> (Inl e, p)
      | Inr msg \<Rightarrow>
          (let p1 = (case msg ''cwd'' of None \<Rightarrow> p | Some c \<Rightarrow> p\<lparr>cwd := c\<rparr>) in
           case message_queue p1 of
             None \<Rightarrow> (Inl (AttributeError ''append''), p1)
           | Some q \<Rightarrow> (Inr (), p1\<lparr>message_queue := Some (q @ [msg])\<rparr>)))"

definition pending :: "proxy \<Rightarrow> nat" where
  "pending p = (case proc p of None \<Rightarrow> 0 | Some pr \<Rightarrow> length (p_stdout pr))"

function u_listen_stdout :: "world \<Rightarrow> proxy \<Rightarrow> (error + unit) \<times> proxy" where
  "u_listen_stdout w p =
     (case listen_read p of
        (Inl e, p1) \<Rightarrow> (Inl e, p1)
      | (Inr data, p1) \<Rightarrow>
          if data = [] then (Inr (), p1)
          else
            (case listen_deliver w data p1 of
               (Inl e, p2) \<Rightarrow> (Inl e, p2)
             | (Inr u, p2) \<Rightarrow> u_listen_stdout w p2))"
  by pat_completeness auto
termination
proof (relation "measure (\<lambda>(w, p). pending p)", goal_cases)
  case 1
  show ?case by simp
next
  case (2 w p x p1 data y p2 u)
  from 2 have "pending p1 < pending p"
    by (cases "proc p"; cases "p_stdout (the (proc p))")
       (auto simp: listen_read_def pending_def)
  moreover from 2 have "proc p2 = proc p1"
    by (auto simp: listen_deliver_def Let_def split: sum.splits option.splits)
  ultimately show ?case
    by (simp add: pending_def)
qed

subsection \<open>The constructor\<close>

definition CPythonProxy_init :: "world \<Rightarrow> string \<Rightarrow> error + proxy" where
  "CPythonProxy_init w configuration_option =
     (case (if configuration_option = ''default'' then private_venv_executable w
            else Inr configuration_option) of
        Inl e \<Rightarrow> Inl e
      | Inr exe \<Rightarrow>
          Inr \<lparr>executable = exe,
               cwd = PStr (if path_exists w (working_directory_option w)
                           then working_directory_option w else home w),
               proc = None, state = None, message_queue = None, sys_path = PList [],
               spawned = [], killed = [], threads = [], events = []\<rparr>)"

subsection \<open>\<^verbatim>\<open>Runner.execute_script\<close>\<close>

text \<open>
  \<^verbatim>\<open>shlex.quote\<close> of the Python library: the empty string is two single quotes, a string
  of the characters \<^verbatim>\<open>[A-Za-z0-9_@%+=:,./-]\<close> is left as it is, and any other string is
  put between single quotes, each single quote of it written \<^verbatim>\<open>'"'"'\<close>.
\<close>

definition safe_char :: "char \<Rightarrow> bool" where
  "safe_char c =
     (c \<in> set ''abcdefghijklmnopqrstuvwxyzABCDEFGHIJKLMNOPQRSTUVWXYZ0123456789_@%+=:,./-'')"

definition quote_char :: "char \<Rightarrow> string" where
  "quote_char c =
     (if c = CHR 0x27 then [CHR 0x27, CHR 0x22, CHR 0x27, CHR 0x22, CHR 0x27] else [c])"

definition shlex_quote :: "string \<Rightarrow> string" where
  "shlex_quote s =
     (if s = [] then [CHR 0x27, CHR 0x27]
      else if list_all safe_char s then s
      else [CHR 0x27] @ concat (map quote_char s) @ [CHR 0x27])"

text \<open>The loop \<^verbatim>\<open>for arg in args\<close> of lines 117-118.\<close>

fun append_args :: "string \<Rightarrow> string list \<Rightarrow> string" where
  "append_args cmd_line [] = cmd_line"
| "append_args cmd_line (arg # rest) = append_args (cmd_line @ '' '' @ shlex_quote arg) rest"

text \<open>
  \<^verbatim>\<open>execute_script\<close>, for the proxy of the runner: the result is the line given to
  \<^verbatim>\<open>submit_command\<close> of the shell view. \<^verbatim>\<open>os.path.relpath\<close> is a parameter.
\<close>

definition execute_script ::
  "(string \<Rightarrow> string \<Rightarrow> error + string) \<Rightarrow> proxy \<Rightarrow> string \<Rightarrow> string list \<Rightarrow>
     string option \<Rightarrow> string \<Rightarrow> error + string" where
  "execute_script relpath p script_path script_args working_directory command_name =
     (case (case working_directory of
              None \<Rightarrow> ([], cwd p)
            | Some wd \<Rightarrow>
                if cwd p \<noteq> PStr wd
                then (''%cd '' @ shlex_quote wd @ [CHR 0x0A], PStr wd)
                else ([], cwd p)) of
        (cmd_line, next_cwd) \<Rightarrow>
          (case next_cwd of
             PList l \<Rightarrow> Inl (TypeError ''relpath'')
           | PStr start \<Rightarrow>
               (case relpath script_path start of
                  Inl e \<Rightarrow> Inl e
                | Inr rel_filename \<Rightarrow>
                    Inr (append_args
                           (cmd_line @ ''%'' @ command_name @ '' '' @ shlex_quote rel_filename)
                           script_args @ [CHR 0x0A]))))"

text \<open>
  Modelled from the spec: the shell-style parser of the command handler
  (\<^verbatim>\<open>parse_shell_command\<close> of \<^verbatim>\<open>thonny.common\<close>, which is not among the sources) splits
  the argument string into words as a POSIX shell does, which is what \<^verbatim>\<open>shlex.split\<close> of the
  Python library computes: words are separated by blanks, single quotes keep every
  character, double quotes keep every character but the backslash before a backslash or a
  double quote, and a backslash outside quotes keeps the next character. \<open>tokens\<close> reads
  the input in one of six modes, with the word read so far.
\<close>

datatype mode = Between | InWord | InSingle | InDouble | EscapedWord | EscapedDouble

definition whitespace :: "char \<Rightarrow> bool" where
  "whitespace c = (c \<in> set [CHR '' '', CHR 0x09, CHR 0x0D, CHR 0x0A])"

fun tokens :: "mode \<Rightarrow> string \<Rightarrow> string \<Rightarrow> error + string list" where
  "tokens Between tok [] = Inr []"
| "tokens Between tok (c # cs) =
     (if whitespace c then tokens Between [] cs
      else if c = CHR 0x5C then tokens EscapedWord [] cs
      else if c = CHR 0x27 then tokens InSingle [] cs
      else if c = CHR 0x22 then tokens InDouble [] cs
      else tokens InWord [c] cs)"
| "tokens InWord tok [] = Inr [tok]"
| "tokens InWord tok (c # cs) =
     (if whitespace c then
        (case tokens Between [] cs of Inl e \<Rightarrow> Inl e | Inr ts \<Rightarrow> Inr (tok # ts))
      else if c = CHR 0x27 then tokens InSingle tok cs
      else if c = CHR 0x22 then tokens InDouble tok cs
      else if c = CHR 0x5C then tokens EscapedWord tok cs
      else tokens InWord (tok @ [c]) cs)"
| "tokens InSingle tok [] = Inl (ValueError ''No closing quotation'')"
| "tokens InSingle tok (c # cs) =
     (if c = CHR 0x27 then tokens InWord tok cs else tokens InSingle (tok @ [c]) cs)"
| "tokens InDouble tok [] = Inl (ValueError ''No closing quotation'')"
| "tokens InDouble tok (c # cs) =
     (if c = CHR 0x22 then tokens InWord tok cs
      else if c = CHR 0x5C then tokens EscapedDouble tok cs
      else tokens InDouble (tok @ [c]) cs)"
| "tokens EscapedWord tok [] = Inl (ValueError ''No escaped character'')"
| "tokens EscapedWord tok (c # cs) = tokens InWord (tok @ [c]) cs"
| "tokens EscapedDouble tok [] = Inl (ValueError ''No escaped character'')"
| "tokens EscapedDouble tok (c # cs) =
     tokens InDouble (if c \<noteq> CHR 0x5C \<and> c \<noteq> CHR 0x22 then tok @ [CHR 0x5C, c] else tok @ [c]) cs"

definition shlex_split :: "string \<Rightarrow> error + string list" where
  "shlex_split s = tokens Between [] s"

text \<open>
  One instruction line as \<^verbatim>\<open>execute_script\<close> writes it: the percent sign and the name of
  the command, each argument after a blank and shell-quoted, and the newline.
\<close>

definition instruction :: "string \<Rightarrow> string list \<Rightarrow> string" where
  "instruction name arguments =
     ''%'' @ name @ concat (map (\<lambda>arg. '' '' @ shlex_quote arg) arguments) @ [CHR 0x0A]"

subsection \<open>Events, and the notions the statements use\<close>

text \<open>The event \<^verbatim>\<open>ProgramOutput{stream_name, data}\<close> as a message.\<close>

definition ProgramOutput :: "string \<Rightarrow> string \<Rightarrow> msg" where
  "ProgramOutput stream d =
     [''message_type'' \<mapsto> PStr ''ProgramOutput'', ''stream_name'' \<mapsto> PStr stream,
      ''data'' \<mapsto> PStr d]"

definition is_output :: "msg \<Rightarrow> bool" where
  "is_output m = (m ''message_type'' = Some (PStr ''ProgramOutput''))"

text \<open>\<open>n\<close> is a \<^verbatim>\<open>ProgramOutput\<close> of the stream of \<open>m\<close>.\<close>

definition same_stream :: "msg \<Rightarrow> msg \<Rightarrow> bool" where
  "same_stream m n = (is_output n \<and> n ''stream_name'' = m ''stream_name'')"

definition data_of :: "msg \<Rightarrow> string" where
  "data_of m = (case m ''data'' of Some (PStr d) \<Rightarrow> d | _ \<Rightarrow> [])"

text \<open>
  An event of the data model: it is tagged by \<^verbatim>\<open>message_type\<close>, and a \<^verbatim>\<open>ProgramOutput\<close>
  has a \<^verbatim>\<open>stream_name\<close> and a string as its \<^verbatim>\<open>data\<close>.
\<close>

definition well_formed :: "msg \<Rightarrow> bool" where
  "well_formed m =
     (m ''message_type'' \<noteq> None \<and>
      (if is_output m
       then m ''stream_name'' \<noteq> None \<and>
            (case m ''data'' of Some (PStr d) \<Rightarrow> True | _ \<Rightarrow> False)
       else True))"

subsection \<open>A concrete setting for the examples\<close>

text \<open>
  The theorems below hold for every codec, file system and child process. The examples
  run in this setting: a codec that knows four kinds of line, an interpreter at
  \<^verbatim>\<open>/usr/bin/python3\<close>, and a child that prints its handshake and two lines of output.
\<close>

definition sample_parse :: "string \<Rightarrow> error + msg" where
  "sample_parse l =
     (if l = ''ready'' then
        Inr [''message_type'' \<mapsto> PStr ''BackendReady'', ''path'' \<mapsto> PList [''/usr/lib/python3'']]
      else if l = ''done'' then Inr [''message_type'' \<mapsto> PStr ''ToplevelResult'']
      else if take 4 l = ''out:'' then Inr (ProgramOutput ''stdout'' (drop 4 l))
      else Inl (MalformedMessage l))"

definition sample_serialize :: "command \<Rightarrow> string" where
  "sample_serialize cmd = (case command cmd of None \<Rightarrow> ''input'' | Some c \<Rightarrow> c)"

definition sample_world :: world where
  "sample_world =
     \<lparr>environ = [(''PATH'', ''/usr/bin''), (''PYTHONPATH'', ''/opt/lib''),
                 (''TK_LIBRARY'', ''/opt/tk''), (''Python_Home'', ''/opt/py'')],
      path_exists = (\<lambda>f. f = ''/usr/bin/python3'' \<or> f = ''/home/u''),
      prepare_launcher = Inr ''/home/u/.thonny/backend/backend_launcher.py'',
      popen = (\<lambda>cmd_line dir env. Inr ([''ready'', ''out:hello'', ''done''], [], False)),
      parse_message = sample_parse,
      serialize_message = sample_serialize,
      private_venv_executable = Inr ''/usr/bin/python3'',
      working_directory_option = ''/home/u'',
      home = ''/home/u''\<rparr>"

text \<open>The same setting with a child that prints nothing on stdout and exits.\<close>

definition silent_world :: world where
  "silent_world =
     sample_world\<lparr>popen := (\<lambda>cmd_line dir env. Inr ([], [''No module named thonny''], True))\<rparr>"

text \<open>A stand-in for \<^verbatim>\<open>os.path.relpath\<close> on paths below the start directory.\<close>

definition sample_relpath :: "string \<Rightarrow> string \<Rightarrow> error + string" where
  "sample_relpath path start =
     (if path = [] then Inl (ValueError ''no path specified'')
      else if prefix (start @ ''/'') path then Inr (drop (length start + 1) path)
      else Inr path)"

definition sample_proxy :: proxy where
  "sample_proxy =
     \<lparr>executable = ''/usr/bin/python3'', cwd = PStr ''/home/u'', proc = None,
      state = Some ''waiting_toplevel_command'', message_queue = None,
      sys_path = PList [], spawned = [], killed = [], threads = [], events = []\<rparr>"

definition sample_process :: process where
  "sample_process =
     \<lparr>p_cmd_line = [''/usr/bin/python3'', ''-u'', ''-B'', ''launcher.py''], p_cwd = ''/home/u'',
      p_env = Map.empty, p_stdin = [], p_stdout = [''out:old''], p_stderr = [],
      p_finished = False\<rparr>"

definition reset_command :: command where
  "reset_command = \<lparr>cmd_class = ToplevelCommand, command = Some ''Reset'', filename = None,
                      args = None, environment = None\<rparr>"

text \<open>
  A line the listener can enqueue is not the end of the stream and decodes; \<open>decoded\<close> is
  the message it decodes to.
\<close>

definition decodes :: "world \<Rightarrow> string \<Rightarrow> bool" where
  "decodes w l = (l \<noteq> [] \<and> \<not> isl (parse_message w l))"

definition decoded :: "world \<Rightarrow> string \<Rightarrow> msg" where
  "decoded w l = projr (parse_message w l)"

text \<open>
  A proxy in the middle of a run: its process is alive and has printed one line that the
  stdout listener has not read yet.
\<close>

definition running_proxy :: proxy where
  "running_proxy =
     sample_proxy\<lparr>proc := Some sample_process, state := Some ''running'',
                   message_queue := Some []\<rparr>"

text \<open>
  That proxy after its stdout listener has read the line (line 549) and the control thread
  has then sent a Reset.
\<close>

definition restarted_proxy :: proxy where
  "restarted_proxy = snd (send_command sample_world reset_command (snd (listen_read running_proxy)))"

text \<open>The same proxy with three unread lines, the second of which does not decode.\<close>

definition listening_proxy :: proxy where
  "listening_proxy =
     running_proxy\<lparr>proc := Some (sample_process\<lparr>p_stdout := [''out:a'', ''garbage'', ''out:b'']\<rparr>)\<rparr>"

section \<open>Properties\<close>

subsection \<open>Basic facts about the operations\<close>

text \<open>
  What each operation leaves alone, and the two successful steps of a start: \<^verbatim>\<open>Popen\<close>
  returning the child, and the handshake line decoding to a message with a \<^verbatim>\<open>path\<close>.
\<close>

lemma state_u_set_state [simp]: "state (u_set_state s p) = Some s"
  by (simp add: u_set_state_def)

lemma state_kill [simp]: "state (kill_current_process p) = state p"
  by (simp add: kill_current_process_def split: option.splits)

lemma state_read_ready [simp]: "state (snd (read_ready w pr p)) = state p"
  by (cases "p_stdout pr") (auto simp: read_ready_def Let_def split: sum.splits)

lemma state_start [simp]: "state (snd (u_start_new_process w cmd p)) = state p"
  by (auto simp: u_start_new_process_def Let_def split: sum.splits pyval.splits prod.splits)

lemma state_stdin_write [simp]: "state (snd (stdin_write s p)) = state p"
  by (auto simp: stdin_write_def split: option.splits)

lemma state_dispatch [simp]: "state (snd (dispatch w cmd p)) = state p"
proof -
  have "state (snd (case u_start_new_process w cmd (kill_current_process p) of
                  (Inl e, p') \<Rightarrow> (Inl e, p')
                | (Inr u, p') \<Rightarrow> stdin_write s p')) = state p" for s
    using state_start[of w cmd "kill_current_process p"]
    by (cases "u_start_new_process w cmd (kill_current_process p)")
       (auto split: sum.splits)
  then show ?thesis
    by (simp add: dispatch_def split: option.splits)
qed

lemma state_u_fetch [simp]: "state (snd (u_fetch_next_message p)) = state p"
  by (auto simp: u_fetch_next_message_def split: option.splits list.splits sum.splits prod.splits)

lemma kill_fields [simp]:
  "executable (kill_current_process p) = executable p"
  "cwd (kill_current_process p) = cwd p"
  "spawned (kill_current_process p) = spawned p"
  "threads (kill_current_process p) = threads p"
  "events (kill_current_process p) = events p"
  "sys_path (kill_current_process p) = sys_path p"
  by (simp_all add: kill_current_process_def split: option.splits)

lemma u_set_state_fields [simp]:
  "executable (u_set_state s p) = executable p"
  "cwd (u_set_state s p) = cwd p"
  "proc (u_set_state s p) = proc p"
  "message_queue (u_set_state s p) = message_queue p"
  "spawned (u_set_state s p) = spawned p"
  "killed (u_set_state s p) = killed p"
  "threads (u_set_state s p) = threads p"
  "events (u_set_state s p) = events p"
  "sys_path (u_set_state s p) = sys_path p"
  by (simp_all add: u_set_state_def)

lemma spawned_read_ready [simp]: "spawned (snd (read_ready w pr p)) = spawned p"
  by (cases "p_stdout pr") (auto simp: read_ready_def Let_def split: sum.splits)

lemma spawned_stdin_write [simp]: "spawned (snd (stdin_write s p)) = spawned p"
  by (auto simp: stdin_write_def split: option.splits)

lemma start_popen:
  assumes "path_exists w (executable p)" and "prepare_launcher w = Inr launcher"
    and "cwd p = PStr dir"
    and "popen w (cmd_line_of (executable p) launcher cmd) dir (my_env w cmd) = Inr (out, err, fin)"
    and "pr = \<lparr>p_cmd_line = cmd_line_of (executable p) launcher cmd, p_cwd = dir,
                p_env = my_env w cmd, p_stdin = [], p_stdout = out, p_stderr = err,
                p_finished = fin\<rparr>"
  shows "u_start_new_process w cmd p =
           read_ready w pr (p\<lparr>message_queue := Some [], proc := Some pr,
                              spawned := spawned p @ [pr]\<rparr>)"
  using assms by (simp add: u_start_new_process_def Let_def)

lemma read_ready_ok:
  assumes "p_stdout pr = line # rest" and "line \<noteq> []" and "parse_message w line = Inr m"
    and "m ''path'' = Some v"
  shows "read_ready w pr p =
     (Inr (), p\<lparr>proc := Some (pr\<lparr>p_stdout := rest\<rparr>), sys_path := v,
               events := events p @ [(''BackendReady'', m)],
               threads := threads p @ [''_listen_stdout'', ''_listen_stderr'']\<rparr>)"
  using assms by (simp add: read_ready_def getitem_def)

lemma queue_read_ready [simp]: "message_queue (snd (read_ready w pr p)) = message_queue p"
  by (cases "p_stdout pr") (auto simp: read_ready_def Let_def split: sum.splits)

lemma queue_stdin_write [simp]: "message_queue (snd (stdin_write s p)) = message_queue p"
  by (auto simp: stdin_write_def split: option.splits)

lemma killed_read_ready [simp]: "killed (snd (read_ready w pr p)) = killed p"
  by (cases "p_stdout pr") (auto simp: read_ready_def Let_def split: sum.splits)

subsection \<open>Coalescing of program output\<close>

lemma same_stream_data_upd [simp]: "same_stream (m(''data'' \<mapsto> v)) = same_stream m"
  by (auto simp: same_stream_def fun_eq_iff)

lemma combine_output_wf:
  assumes "list_all well_formed q" and "m ''stream_name'' = Some s" and "m ''data'' = Some (PStr d)"
  shows "combine_output m q =
           (Inr (m(''data'' \<mapsto> PStr (d @ concat (map data_of (takeWhile (same_stream m) q))))),
            dropWhile (same_stream m) q)"
  using assms
proof (induction q arbitrary: m d)
  case Nil
  then show ?case by (simp add: fun_upd_idem)
next
  case (Cons n q)
  show ?case
  proof (cases "same_stream m n")
    case True
    with Cons.prems obtain d' where n: "n ''message_type'' = Some (PStr ''ProgramOutput'')"
        "n ''stream_name'' = Some s" "n ''data'' = Some (PStr d')"
      by (auto simp: same_stream_def well_formed_def is_output_def split: option.splits pyval.splits)
    let ?m' = "m(''data'' \<mapsto> PStr (d @ d'))"
    have "combine_output m (n # q) = combine_output ?m' q"
      using n Cons.prems by (simp add: getitem_def)
    also have "\<dots> = (Inr (?m'(''data'' \<mapsto> PStr ((d @ d') @ concat (map data_of (takeWhile (same_stream ?m') q))))),
            dropWhile (same_stream ?m') q)"
      using Cons.prems by (intro Cons.IH) auto
    finally have c: "combine_output m (n # q) =
        (Inr (m(''data'' \<mapsto> PStr (d @ d' @ concat (map data_of (takeWhile (same_stream m) q))))),
            dropWhile (same_stream m) q)"
      by simp
    have "data_of n = d'" using n by (simp add: data_of_def)
    with True c show ?thesis by (simp del: combine_output.simps add: fun_eq_iff)
  next
    case False
    from Cons.prems obtain t where t: "n ''message_type'' = Some t"
      by (auto simp: well_formed_def)
    show ?thesis
    proof (cases "t = PStr ''ProgramOutput''")
      case True
      with t Cons.prems obtain s' where "n ''stream_name'' = Some s'"
        by (auto simp: well_formed_def is_output_def)
      with False t True Cons.prems show ?thesis
        by (auto simp: getitem_def same_stream_def is_output_def fun_upd_idem)
    next
      case ne: False
      with False t Cons.prems show ?thesis
        by (auto simp: getitem_def same_stream_def is_output_def fun_upd_idem)
    qed
  qed
qed

text \<open>
  C1. One call of \<open>fetch_next_message\<close> on a queue of events of the data model pops the front
  event \<open>m\<close>. When \<open>m\<close> is a \<^verbatim>\<open>ProgramOutput\<close>, the call returns \<open>m\<close> with the data of the
  longest run of \<^verbatim>\<open>ProgramOutput\<close> events of the same stream that follow it appended to its
  own data, in the order of the queue, and the queue is left at the first event of another
  type or stream. Otherwise the call returns \<open>m\<close> and leaves the rest of the queue. The
  witness is the queue of the specification: \<^verbatim>\<open>stdout "a"\<close>, \<^verbatim>\<open>stdout "b"\<close>, \<^verbatim>\<open>stderr "x"\<close>,
  \<^verbatim>\<open>stdout "c"\<close> gives \<^verbatim>\<open>stdout "ab"\<close>, then \<^verbatim>\<open>stderr "x"\<close>, then \<^verbatim>\<open>stdout "c"\<close>.
\<close>

theorem fetch_next_message_coalesces:
  assumes "message_queue p = Some (m # q)" and "list_all well_formed (m # q)"
  shows "if is_output m
         then fetch_next_message p =
                (Inr (Some (m(''data'' \<mapsto>
                   PStr (data_of m @ concat (map data_of (takeWhile (same_stream m) q)))))),
                 p\<lparr>message_queue := Some (dropWhile (same_stream m) q)\<rparr>)
         else fst (fetch_next_message p) = Inr (Some m) \<and>
              message_queue (snd (fetch_next_message p)) = Some q"
proof (cases "is_output m")
  case True
  from assms True obtain s d where sd: "m ''stream_name'' = Some s" "m ''data'' = Some (PStr d)"
    by (auto simp: well_formed_def split: option.splits pyval.splits)
  from assms have "list_all well_formed q" by simp
  from combine_output_wf[OF this sd] True assms(1) sd show ?thesis
    by (simp add: fetch_next_message_def u_fetch_next_message_def getitem_def is_output_def data_of_def)
next
  case False
  from assms obtain t where "m ''message_type'' = Some t"
    by (auto simp: well_formed_def)
  with False assms(1) show ?thesis
    by (auto simp: fetch_next_message_def u_fetch_next_message_def getitem_def is_output_def u_set_state_def)
qed

theorem fetch_next_message_coalesces_witness:
  "fetch_next_message (sample_proxy\<lparr>message_queue := Some
       [ProgramOutput ''stdout'' ''a'', ProgramOutput ''stdout'' ''b'',
        ProgramOutput ''stderr'' ''x'', ProgramOutput ''stdout'' ''c'']\<rparr>) =
     (Inr (Some (ProgramOutput ''stdout'' ''ab'')),
      sample_proxy\<lparr>message_queue := Some
        [ProgramOutput ''stderr'' ''x'', ProgramOutput ''stdout'' ''c'']\<rparr>) \<and>
   fetch_next_message (sample_proxy\<lparr>message_queue := Some
       [ProgramOutput ''stderr'' ''x'', ProgramOutput ''stdout'' ''c'']\<rparr>) =
     (Inr (Some (ProgramOutput ''stderr'' ''x'')),
      sample_proxy\<lparr>message_queue := Some [ProgramOutput ''stdout'' ''c'']\<rparr>) \<and>
   fetch_next_message (sample_proxy\<lparr>message_queue := Some [ProgramOutput ''stdout'' ''c'']\<rparr>) =
     (Inr (Some (ProgramOutput ''stdout'' ''c'')), sample_proxy\<lparr>message_queue := Some []\<rparr>)"
proof -
  have wf: "well_formed (ProgramOutput s d)" for s d
    by (simp add: well_formed_def ProgramOutput_def is_output_def)
  have out: "is_output (ProgramOutput s d)" for s d
    by (simp add: ProgramOutput_def is_output_def)
  have same: "same_stream (ProgramOutput s d) (ProgramOutput s' d') = (s' = s)" for s d s' d'
    by (simp add: same_stream_def ProgramOutput_def is_output_def)
  have dat: "data_of (ProgramOutput s d) = d" for s d
    by (simp add: data_of_def ProgramOutput_def)
  have upd: "(ProgramOutput s d)(''data'' \<mapsto> PStr e) = ProgramOutput s e" for s d e
    by (simp add: ProgramOutput_def)
  show ?thesis
    using
      fetch_next_message_coalesces [of
        "sample_proxy\<lparr>message_queue := Some
           [ProgramOutput ''stdout'' ''a'', ProgramOutput ''stdout'' ''b'',
            ProgramOutput ''stderr'' ''x'', ProgramOutput ''stdout'' ''c'']\<rparr>"
        "ProgramOutput ''stdout'' ''a''"
        "[ProgramOutput ''stdout'' ''b'', ProgramOutput ''stderr'' ''x'',
          ProgramOutput ''stdout'' ''c'']"]
      fetch_next_message_coalesces [of
        "sample_proxy\<lparr>message_queue := Some
           [ProgramOutput ''stderr'' ''x'', ProgramOutput ''stdout'' ''c'']\<rparr>"
        "ProgramOutput ''stderr'' ''x''" "[ProgramOutput ''stdout'' ''c'']"]
      fetch_next_message_coalesces [of
        "sample_proxy\<lparr>message_queue := Some [ProgramOutput ''stdout'' ''c'']\<rparr>"
        "ProgramOutput ''stdout'' ''c''" "[]"]
    by (simp add: wf out same dat upd)
qed

text \<open>
  C9. A proxy without a message queue answers \<open>fetch_next_message\<close> with \<^verbatim>\<open>None\<close>: nothing
  is raised and the proxy is left as it was. A proxy has no message queue when it was just
  constructed, and when its live process was just killed.
\<close>

theorem fetch_without_queue:
  "(message_queue p = None \<longrightarrow> fetch_next_message p = (Inr None, p)) \<and>
   (CPythonProxy_init w opt = Inr p0 \<longrightarrow> message_queue p0 = None) \<and>
   (proc p = Some pr \<and> \<not> p_finished pr \<longrightarrow> message_queue (kill_current_process p) = None)"
  by (auto simp: fetch_next_message_def u_fetch_next_message_def CPythonProxy_init_def
        kill_current_process_def split: sum.splits if_splits)

theorem fetch_without_queue_witness:
  "message_queue sample_proxy = None \<and>
   fetch_next_message sample_proxy = (Inr None, sample_proxy) \<and>
   CPythonProxy_init sample_world ''default'' = Inr (sample_proxy\<lparr>state := None\<rparr>) \<and>
   fetch_next_message (sample_proxy\<lparr>state := None\<rparr>) = (Inr None, sample_proxy\<lparr>state := None\<rparr>) \<and>
   proc running_proxy = Some sample_process \<and> \<not> p_finished sample_process \<and>
   fetch_next_message (kill_current_process running_proxy) =
     (Inr None, kill_current_process running_proxy)"
proof -
  have a: "message_queue sample_proxy = None"
    by (simp add: sample_proxy_def)
  have i: "CPythonProxy_init sample_world ''default'' = Inr (sample_proxy\<lparr>state := None\<rparr>)"
    by (simp add: CPythonProxy_init_def sample_world_def sample_proxy_def)
  have k: "proc running_proxy = Some sample_process \<and> \<not> p_finished sample_process"
    by (simp add: running_proxy_def sample_process_def)
  have q1: "message_queue (sample_proxy\<lparr>state := None\<rparr>) = None"
    using i fetch_without_queue [of sample_proxy sample_world "''default''"
        "sample_proxy\<lparr>state := None\<rparr>" sample_process]
    by blast
  have q2: "message_queue (kill_current_process running_proxy) = None"
    using k fetch_without_queue [of running_proxy sample_world "''default''"
        "sample_proxy\<lparr>state := None\<rparr>" sample_process]
    by blast
  show ?thesis
    using a i k
      fetch_without_queue [of sample_proxy sample_world "''default''"
        "sample_proxy\<lparr>state := None\<rparr>" sample_process]
      fetch_without_queue [of "sample_proxy\<lparr>state := None\<rparr>" sample_world "''default''"
        "sample_proxy\<lparr>state := None\<rparr>" sample_process, THEN conjunct1, rule_format, OF q1]
      fetch_without_queue [of "kill_current_process running_proxy" sample_world "''default''"
        "sample_proxy\<lparr>state := None\<rparr>" sample_process, THEN conjunct1, rule_format, OF q2]
    by simp
qed

subsection \<open>The execution state\<close>

text \<open>
  C2. A call of \<open>fetch_next_message\<close> that returns an event leaves the state
  \<^verbatim>\<open>waiting_toplevel_command\<close> for a \<^verbatim>\<open>ToplevelResult\<close>, \<^verbatim>\<open>waiting_debug_command\<close> for a
  \<^verbatim>\<open>DebuggerProgress\<close>, \<^verbatim>\<open>waiting_input\<close> for an \<^verbatim>\<open>InputRequest\<close>, and the state it found
  for any other event. \<open>send_command\<close> with a \<^verbatim>\<open>ToplevelCommand\<close>, a \<^verbatim>\<open>DebuggerCommand\<close> or an
  \<^verbatim>\<open>InputSubmission\<close> sets the state to \<^verbatim>\<open>running\<close> first and then restarts the process
  and writes the command (\<open>dispatch\<close>), and the state is \<^verbatim>\<open>running\<close> when the call is over,
  whether it returned or raised.
\<close>

theorem state_machine:
  "(fetch_next_message p = (Inr (Some m), p') \<longrightarrow>
      state p' =
        (if m ''message_type'' = Some (PStr ''ToplevelResult'') then Some ''waiting_toplevel_command''
         else if m ''message_type'' = Some (PStr ''DebuggerProgress'') then Some ''waiting_debug_command''
         else if m ''message_type'' = Some (PStr ''InputRequest'') then Some ''waiting_input''
         else state p)) \<and>
   (cmd_class cmd \<in> {ToplevelCommand, DebuggerCommand, InputSubmission} \<longrightarrow>
      send_command w cmd p = dispatch w cmd (u_set_state ''running'' p) \<and>
      get_state (u_set_state ''running'' p) = Some ''running'' \<and>
      get_state (snd (send_command w cmd p)) = Some ''running'')"
proof (intro conjI impI)
  assume f: "fetch_next_message p = (Inr (Some m), p')"
  obtain r p1 where u: "u_fetch_next_message p = (r, p1)"
    by (cases "u_fetch_next_message p")
  have s1: "state p1 = state p"
    using state_u_fetch[of p] u by simp
  from f u s1 show "state p' =
        (if m ''message_type'' = Some (PStr ''ToplevelResult'') then Some ''waiting_toplevel_command''
         else if m ''message_type'' = Some (PStr ''DebuggerProgress'') then Some ''waiting_debug_command''
         else if m ''message_type'' = Some (PStr ''InputRequest'') then Some ''waiting_input''
         else state p)"
    by (auto simp: fetch_next_message_def getitem_def split: sum.splits option.splits if_splits)
next
  assume c: "cmd_class cmd \<in> {ToplevelCommand, DebuggerCommand, InputSubmission}"
  then show "send_command w cmd p = dispatch w cmd (u_set_state ''running'' p)"
    by (auto simp: send_command_def)
  then show "get_state (snd (send_command w cmd p)) = Some ''running''"
    by (simp add: get_state_def)
  show "get_state (u_set_state ''running'' p) = Some ''running''"
    by (simp add: get_state_def)
qed

theorem state_machine_witness:
  "fetch_next_message
     (sample_proxy\<lparr>state := Some ''running'',
                    message_queue := Some [[''message_type'' \<mapsto> PStr ''ToplevelResult'']]\<rparr>) =
     (Inr (Some [''message_type'' \<mapsto> PStr ''ToplevelResult'']),
      sample_proxy\<lparr>state := Some ''waiting_toplevel_command'', message_queue := Some []\<rparr>) \<and>
   state (sample_proxy\<lparr>state := Some ''waiting_toplevel_command'', message_queue := Some []\<rparr>) =
     Some ''waiting_toplevel_command'' \<and>
   cmd_class reset_command \<in> {ToplevelCommand, DebuggerCommand, InputSubmission} \<and>
   get_state (snd (send_command sample_world reset_command
                    (sample_proxy\<lparr>state := Some ''waiting_input''\<rparr>))) = Some ''running''"
proof -
  have f: "fetch_next_message
     (sample_proxy\<lparr>state := Some ''running'',
                    message_queue := Some [[''message_type'' \<mapsto> PStr ''ToplevelResult'']]\<rparr>) =
     (Inr (Some [''message_type'' \<mapsto> PStr ''ToplevelResult'']),
      sample_proxy\<lparr>state := Some ''waiting_toplevel_command'', message_queue := Some []\<rparr>)"
    by (simp add: fetch_next_message_def u_fetch_next_message_def getitem_def u_set_state_def)
  have c: "cmd_class reset_command \<in> {ToplevelCommand, DebuggerCommand, InputSubmission}"
    by (simp add: reset_command_def)
  have s: "get_state (snd (send_command sample_world reset_command
                    (sample_proxy\<lparr>state := Some ''waiting_input''\<rparr>))) = Some ''running''"
    using c state_machine [where
        p = "sample_proxy\<lparr>state := Some ''waiting_input''\<rparr>"
        and m = Map.empty and p' = sample_proxy
        and cmd = reset_command and w = sample_world]
    by blast
  have t: "state (sample_proxy\<lparr>state := Some ''waiting_toplevel_command'', message_queue := Some []\<rparr>) =
     Some ''waiting_toplevel_command''"
    using f state_machine [where
        p = "sample_proxy\<lparr>state := Some ''running'',
                    message_queue := Some [[''message_type'' \<mapsto> PStr ''ToplevelResult'']]\<rparr>"
        and m = "[''message_type'' \<mapsto> PStr ''ToplevelResult'']"
        and p' = "sample_proxy\<lparr>state := Some ''waiting_toplevel_command'', message_queue := Some []\<rparr>"
        and cmd = reset_command and w = sample_world]
    by simp
  from f c s t show ?thesis
    by blast
qed

text \<open>
  C10. \<open>send_command\<close> with an \<^verbatim>\<open>InlineCommand\<close>, such as the \<^verbatim>\<open>tkupdate\<close> tick, either
  raises and leaves the proxy as it was, or appends the serialized command and a newline
  to the stdin of the process the proxy has. The state, the message queue and the logs of
  killed processes, created processes and started threads are the same after the call. So
  the tick of \<open>u_advance_background_tk_mainloop\<close> changes neither the state nor the process.
\<close>

theorem inline_command_frame:
  assumes "cmd_class cmd = InlineCommand"
  shows "send_command w cmd p =
           (if command cmd = None then (Inl (AttributeError ''command''), p)
            else case proc p of
                   None \<Rightarrow> (Inl (AttributeError ''stdin''), p)
                 | Some pr \<Rightarrow>
                     if p_finished pr then (Inl BrokenPipeError, p)
                     else (Inr (), p\<lparr>proc := Some (pr\<lparr>p_stdin := p_stdin pr @
                                     [serialize_message w cmd @ [CHR 0x0A]]\<rparr>)\<rparr>)) \<and>
         get_state (snd (send_command w cmd p)) = get_state p \<and>
         killed (snd (send_command w cmd p)) = killed p \<and>
         spawned (snd (send_command w cmd p)) = spawned p \<and>
         threads (snd (send_command w cmd p)) = threads p \<and>
         message_queue (snd (send_command w cmd p)) = message_queue p \<and>
         get_state (snd (u_advance_background_tk_mainloop w p)) = get_state p \<and>
         killed (snd (u_advance_background_tk_mainloop w p)) = killed p \<and>
         spawned (snd (u_advance_background_tk_mainloop w p)) = spawned p"
  using assms
  by (auto simp: send_command_def dispatch_def stdin_write_def get_state_def
        u_advance_background_tk_mainloop_def tkupdate_def split: option.splits)

theorem inline_command_frame_witness:
  "cmd_class tkupdate = InlineCommand \<and>
   send_command sample_world tkupdate (sample_proxy\<lparr>proc := Some sample_process\<rparr>) =
     (Inr (), sample_proxy\<lparr>proc := Some (sample_process\<lparr>p_stdin := [''tkupdate'' @ [CHR 0x0A]]\<rparr>)\<rparr>) \<and>
   get_state (snd (send_command sample_world tkupdate (sample_proxy\<lparr>proc := Some sample_process\<rparr>))) =
     Some ''waiting_toplevel_command'' \<and>
   get_state (snd (u_advance_background_tk_mainloop sample_world
                     (sample_proxy\<lparr>proc := Some sample_process\<rparr>))) =
     Some ''waiting_toplevel_command''"
  using inline_command_frame [of tkupdate sample_world "sample_proxy\<lparr>proc := Some sample_process\<rparr>"]
  by (simp add: tkupdate_def sample_world_def sample_serialize_def sample_process_def
        sample_proxy_def get_state_def)

subsection \<open>Starting without an interpreter\<close>

lemma start_missing:
  "\<not> path_exists w (executable p) \<Longrightarrow>
   u_start_new_process w cmd p =
     (Inl (UserError (''Interpreter ('' @ executable p @
             '') not found. Please recheck corresponding option!'')),
      p\<lparr>message_queue := Some []\<rparr>)"
  by (simp add: u_start_new_process_def)

text \<open>
  C3, as amended. When the path of the configured interpreter does not exist,
  \<open>u_start_new_process\<close> raises the \<^verbatim>\<open>UserError\<close> "Interpreter (...) not found" before
  \<^verbatim>\<open>Popen\<close> is reached, and changes nothing of the proxy but the message queue, which is
  the new empty one. \<open>send_command\<close> with a Run, Debug or Reset \<^verbatim>\<open>ToplevelCommand\<close> raises that
  error after it has set the state to \<^verbatim>\<open>running\<close> and killed the current process: no process
  is created, no thread is started, \<open>get_state\<close> is \<^verbatim>\<open>running\<close>, and the proxy holds no
  process, or the one it held when that one had already finished.
\<close>

theorem missing_interpreter:
  assumes "\<not> path_exists w (executable p)"
    and "cmd_class cmd = ToplevelCommand" and "command cmd = Some c"
    and "c \<in> set [''Run'', ''Debug'', ''Reset'']"
  shows "u_start_new_process w cmd p =
           (Inl (UserError (''Interpreter ('' @ executable p @
                   '') not found. Please recheck corresponding option!'')),
            p\<lparr>message_queue := Some []\<rparr>) \<and>
         send_command w cmd p =
           (Inl (UserError (''Interpreter ('' @ executable p @
                   '') not found. Please recheck corresponding option!'')),
            (kill_current_process (u_set_state ''running'' p))\<lparr>message_queue := Some []\<rparr>) \<and>
         get_state (snd (send_command w cmd p)) = Some ''running'' \<and>
         spawned (snd (send_command w cmd p)) = spawned p \<and>
         threads (snd (send_command w cmd p)) = threads p \<and>
         proc (snd (send_command w cmd p)) =
           (case proc p of
              None \<Rightarrow> None
            | Some pr \<Rightarrow> if p_finished pr then Some pr else None)"
proof -
  have e: "\<not> path_exists w (executable (kill_current_process (u_set_state ''running'' p)))"
    using assms(1) by simp
  have s: "send_command w cmd p =
           (Inl (UserError (''Interpreter ('' @ executable p @
                   '') not found. Please recheck corresponding option!'')),
            (kill_current_process (u_set_state ''running'' p))\<lparr>message_queue := Some []\<rparr>)"
    using assms(2-4) start_missing[OF e, of cmd]
    by (simp add: send_command_def dispatch_def)
  have k: "proc (kill_current_process (u_set_state ''running'' p)) =
           (case proc p of
              None \<Rightarrow> None
            | Some pr \<Rightarrow> if p_finished pr then Some pr else None)"
    by (simp add: kill_current_process_def split: option.splits)
  show ?thesis
    unfolding s using start_missing[OF assms(1), of cmd] k
    by (simp add: get_state_def)
qed

text \<open>
  The claim as stated fails on the state: in the state \<^verbatim>\<open>waiting_toplevel_command\<close>, a Reset
  with a missing interpreter raises the error and leaves \<open>get_state\<close> at \<^verbatim>\<open>running\<close>.
\<close>

theorem missing_interpreter_counterexample:
  "\<not> path_exists sample_world ''/nowhere'' \<and>
   get_state (sample_proxy\<lparr>executable := ''/nowhere''\<rparr>) = Some ''waiting_toplevel_command'' \<and>
   fst (send_command sample_world reset_command (sample_proxy\<lparr>executable := ''/nowhere''\<rparr>)) =
     Inl (UserError ''Interpreter (/nowhere) not found. Please recheck corresponding option!'') \<and>
   get_state (snd (send_command sample_world reset_command
                     (sample_proxy\<lparr>executable := ''/nowhere''\<rparr>))) = Some ''running''"
  by (simp add: send_command_def dispatch_def u_start_new_process_def kill_current_process_def
        u_set_state_def get_state_def sample_world_def sample_proxy_def reset_command_def)

theorem missing_interpreter_witness:
  "\<not> path_exists sample_world (executable (sample_proxy\<lparr>executable := ''/nowhere''\<rparr>)) \<and>
   cmd_class reset_command = ToplevelCommand \<and> command reset_command = Some ''Reset'' \<and>
   ''Reset'' \<in> set [''Run'', ''Debug'', ''Reset''] \<and>
   send_command sample_world reset_command (sample_proxy\<lparr>executable := ''/nowhere''\<rparr>) =
     (Inl (UserError ''Interpreter (/nowhere) not found. Please recheck corresponding option!''),
      sample_proxy\<lparr>executable := ''/nowhere'', state := Some ''running'', message_queue := Some []\<rparr>) \<and>
   proc (snd (send_command sample_world reset_command (sample_proxy\<lparr>executable := ''/nowhere''\<rparr>))) = None"
  using missing_interpreter [of sample_world "sample_proxy\<lparr>executable := ''/nowhere''\<rparr>"
      reset_command "''Reset''"]
  by (simp add: sample_world_def sample_proxy_def reset_command_def kill_current_process_def
        u_set_state_def)

subsection \<open>The environment of the child\<close>

lemma lower_samples:
  "lower ''PATH'' = ''path''" "lower ''PYTHONPATH'' = ''pythonpath''"
  "lower ''TK_LIBRARY'' = ''tk_library''" "lower ''Python_Home'' = ''python_home''"
  "lower ''PYTHONIOENCODING'' = ''pythonioencoding''"
  "lower ''PYTHONUNBUFFERED'' = ''pythonunbuffered''"
  by (simp_all add: lower_def lower_char_def)

lemma sample_copied:
  "copied ''PATH''" "\<not> copied ''PYTHONPATH''" "\<not> copied ''TK_LIBRARY''" "\<not> copied ''Python_Home''"
  by (simp_all add: copied_def lower_samples sublist_Cons_right)

lemma python_in_fixed:
  "sublist ''python'' (lower ''PYTHONIOENCODING'')" "sublist ''python'' (lower ''PYTHONUNBUFFERED'')"
  by (simp_all add: lower_samples sublist_Cons_right)

lemma copy_environ_apply:
  "copy_environ env names acc name =
     (if name \<in> set names \<and> copied name then map_of env name else acc name)"
  by (induction names arbitrary: acc) auto

lemma copied_iff:
  "copied name \<longleftrightarrow>
     \<not> (sublist ''python'' (lower name) \<or> name = ''TK_LIBRARY'' \<or> name = ''TCL_LIBRARY'')"
  by (auto simp: copied_def)

lemma copy_environ_all:
  "copy_environ env (map fst env) Map.empty name =
     (if copied name then map_of env name else None)"
proof (cases "name \<in> fst ` set env")
  case True
  then show ?thesis by (simp add: copy_environ_apply)
next
  case False
  then have "map_of env name = None" by (simp add: map_of_eq_None_iff)
  with False show ?thesis by (simp add: copy_environ_apply)
qed

lemma my_env_apply:
  "my_env w cmd name =
     (case (case environment cmd of None \<Rightarrow> None | Some extra \<Rightarrow> extra name) of
        Some v \<Rightarrow> Some v
      | None \<Rightarrow>
          if name = ''PYTHONIOENCODING'' then Some ''ASCII''
          else if name = ''PYTHONUNBUFFERED'' then Some ''1''
          else if sublist ''python'' (lower name) \<or> name = ''TK_LIBRARY'' \<or> name = ''TCL_LIBRARY''
               then None
               else map_of (environ w) name)"
proof (cases "environment cmd")
  case None
  then show ?thesis
    by (simp add: my_env_def Let_def copy_environ_all copied_iff)
next
  case (Some extra)
  then show ?thesis
    by (cases "extra name") (simp_all add: my_env_def Let_def map_add_def copy_environ_all copied_iff)
qed

lemma spawned_start:
  "spawned (snd (u_start_new_process w cmd p)) = spawned p \<or>
   (\<exists>pr. spawned (snd (u_start_new_process w cmd p)) = spawned p @ [pr] \<and>
         p_env pr = my_env w cmd)"
proof (cases "path_exists w (executable p)")
  case False
  then show ?thesis by (simp add: u_start_new_process_def)
next
  case True
  show ?thesis
  proof (cases "prepare_launcher w")
    case (Inl e)
    with True show ?thesis by (simp add: u_start_new_process_def)
  next
    case (Inr launcher)
    show ?thesis
    proof (cases "cwd p")
      case (PList l)
      with True Inr show ?thesis by (simp add: u_start_new_process_def)
    next
      case (PStr dir)
      show ?thesis
      proof (cases "popen w (cmd_line_of (executable p) launcher cmd) dir (my_env w cmd)")
        case (Inl e)
        with True Inr PStr show ?thesis by (simp add: u_start_new_process_def)
      next
        case r: (Inr res)
        obtain out err fin where "res = (out, err, fin)" by (cases res) auto
        with True Inr PStr r show ?thesis
          by (simp add: start_popen[OF True Inr PStr _ refl])
      qed
    qed
  qed
qed

lemma spawned_dispatch:
  "spawned (snd (dispatch w cmd p)) = spawned p \<or>
   (\<exists>pr. spawned (snd (dispatch w cmd p)) = spawned p @ [pr] \<and> p_env pr = my_env w cmd)"
proof -
  have "spawned (snd (case u_start_new_process w cmd (kill_current_process p) of
                  (Inl e, p') \<Rightarrow> (Inl e, p')
                | (Inr u, p') \<Rightarrow> stdin_write s p')) =
        spawned (snd (u_start_new_process w cmd (kill_current_process p)))" for s
    by (cases "u_start_new_process w cmd (kill_current_process p)")
       (auto split: sum.splits)
  then show ?thesis
    using spawned_start[of w cmd "kill_current_process p"]
    by (auto simp: dispatch_def split: option.splits)
qed

text \<open>
  C5, as amended. The environment of the child is the host environment without every
  variable whose name contains \<^verbatim>\<open>python\<close> in any case and without \<^verbatim>\<open>TK_LIBRARY\<close> and
  \<^verbatim>\<open>TCL_LIBRARY\<close>, with \<^verbatim>\<open>PYTHONIOENCODING=ASCII\<close> and \<^verbatim>\<open>PYTHONUNBUFFERED=1\<close> set, and with the
  \<^verbatim>\<open>environment\<close> of the command, when it has one, taking precedence. \<open>send_command\<close>
  creates at most one process, and that process has this environment.
\<close>

theorem child_environment:
  "my_env w cmd name =
     (case (case environment cmd of None \<Rightarrow> None | Some extra \<Rightarrow> extra name) of
        Some v \<Rightarrow> Some v
      | None \<Rightarrow>
          if name = ''PYTHONIOENCODING'' then Some ''ASCII''
          else if name = ''PYTHONUNBUFFERED'' then Some ''1''
          else if sublist ''python'' (lower name) \<or> name = ''TK_LIBRARY'' \<or> name = ''TCL_LIBRARY''
               then None
               else map_of (environ w) name) \<and>
   (spawned (snd (send_command w cmd p)) = spawned p \<or>
    (\<exists>pr. spawned (snd (send_command w cmd p)) = spawned p @ [pr] \<and> p_env pr = my_env w cmd))"
proof
  show "my_env w cmd name =
     (case (case environment cmd of None \<Rightarrow> None | Some extra \<Rightarrow> extra name) of
        Some v \<Rightarrow> Some v
      | None \<Rightarrow>
          if name = ''PYTHONIOENCODING'' then Some ''ASCII''
          else if name = ''PYTHONUNBUFFERED'' then Some ''1''
          else if sublist ''python'' (lower name) \<or> name = ''TK_LIBRARY'' \<or> name = ''TCL_LIBRARY''
               then None
               else map_of (environ w) name)"
    by (rule my_env_apply)
next
  show "spawned (snd (send_command w cmd p)) = spawned p \<or>
    (\<exists>pr. spawned (snd (send_command w cmd p)) = spawned p @ [pr] \<and> p_env pr = my_env w cmd)"
    using spawned_dispatch[of w cmd p] spawned_dispatch[of w cmd "u_set_state ''running'' p"]
    by (auto simp: send_command_def)
qed

lemma spawned_send_sample:
  "spawned (snd (send_command sample_world reset_command sample_proxy)) =
     [\<lparr>p_cmd_line = cmd_line_of ''/usr/bin/python3''
                     ''/home/u/.thonny/backend/backend_launcher.py'' reset_command,
       p_cwd = ''/home/u'', p_env = my_env sample_world reset_command, p_stdin = [],
       p_stdout = [''ready'', ''out:hello'', ''done''], p_stderr = [], p_finished = False\<rparr>]"
proof -
  let ?p = "kill_current_process (u_set_state ''running'' sample_proxy)"
  have p: "?p = sample_proxy\<lparr>state := Some ''running''\<rparr>"
    by (simp add: kill_current_process_def u_set_state_def sample_proxy_def)
  have "spawned (snd (u_start_new_process sample_world reset_command ?p)) =
     [\<lparr>p_cmd_line = cmd_line_of ''/usr/bin/python3''
                     ''/home/u/.thonny/backend/backend_launcher.py'' reset_command,
       p_cwd = ''/home/u'', p_env = my_env sample_world reset_command, p_stdin = [],
       p_stdout = [''ready'', ''out:hello'', ''done''], p_stderr = [], p_finished = False\<rparr>]"
    unfolding p
    by (subst start_popen[where launcher = "''/home/u/.thonny/backend/backend_launcher.py''"
          and dir = "''/home/u''" and out = "[''ready'', ''out:hello'', ''done'']"
          and err = "[]" and fin = False, OF _ _ _ _ refl])
       (simp_all add: sample_world_def sample_proxy_def)
  moreover have "spawned (snd (send_command sample_world reset_command sample_proxy)) =
      spawned (snd (u_start_new_process sample_world reset_command ?p))"
    by (cases "u_start_new_process sample_world reset_command ?p")
       (auto simp: send_command_def dispatch_def reset_command_def split: sum.splits)
  ultimately show ?thesis by simp
qed

text \<open>
  The claim as stated fails on \<^verbatim>\<open>TK_LIBRARY\<close>: its name does not contain \<^verbatim>\<open>python\<close>, the
  command does not override it, and the child does not get it. The two listed names are
  dropped, not kept.
\<close>

theorem child_environment_counterexample:
  "map_of (environ sample_world) ''TK_LIBRARY'' = Some ''/opt/tk'' \<and>
   \<not> sublist ''python'' (lower ''TK_LIBRARY'') \<and>
   environment reset_command = None \<and>
   map (\<lambda>pr. p_env pr ''TK_LIBRARY'')
     (spawned (snd (send_command sample_world reset_command sample_proxy))) = [None]"
proof -
  have "my_env sample_world reset_command ''TK_LIBRARY'' = None"
    by (simp add: my_env_apply reset_command_def)
  moreover have "map_of (environ sample_world) ''TK_LIBRARY'' = Some ''/opt/tk''"
    by (simp add: sample_world_def)
  moreover have "\<not> sublist ''python'' (lower ''TK_LIBRARY'')"
    by (simp add: lower_samples sublist_Cons_right)
  moreover have "environment reset_command = None"
    by (simp add: reset_command_def)
  ultimately show ?thesis
    by (simp add: spawned_send_sample)
qed

theorem child_environment_witness:
  "map (my_env sample_world reset_command)
     [''PATH'', ''PYTHONPATH'', ''TK_LIBRARY'', ''Python_Home'', ''PYTHONIOENCODING'',
      ''PYTHONUNBUFFERED''] =
     [Some ''/usr/bin'', None, None, None, Some ''ASCII'', Some ''1'']"
  using child_environment [of sample_world reset_command "''PATH''" sample_proxy]
    child_environment [of sample_world reset_command "''PYTHONPATH''" sample_proxy]
    child_environment [of sample_world reset_command "''TK_LIBRARY''" sample_proxy]
    child_environment [of sample_world reset_command "''Python_Home''" sample_proxy]
    child_environment [of sample_world reset_command "''PYTHONIOENCODING''" sample_proxy]
    child_environment [of sample_world reset_command "''PYTHONUNBUFFERED''" sample_proxy]
  by (simp add: sample_world_def reset_command_def lower_samples sublist_Cons_right)

subsection \<open>The handshake\<close>

lemma read_ready_failure:
  "fst (read_ready w pr p) \<noteq> Inr () \<Longrightarrow>
     sys_path (snd (read_ready w pr p)) = sys_path p \<and>
     threads (snd (read_ready w pr p)) = threads p \<and>
     events (snd (read_ready w pr p)) = events p"
  by (cases "p_stdout pr") (auto simp: read_ready_def Let_def split: sum.splits if_splits)

lemma start_failure:
  assumes "fst (u_start_new_process w cmd p) \<noteq> Inr ()"
  shows "sys_path (snd (u_start_new_process w cmd p)) = sys_path p \<and>
     threads (snd (u_start_new_process w cmd p)) = threads p \<and>
     events (snd (u_start_new_process w cmd p)) = events p"
proof (cases "path_exists w (executable p)")
  case False
  then show ?thesis by (simp add: u_start_new_process_def)
next
  case True
  show ?thesis
  proof (cases "prepare_launcher w")
    case (Inl e)
    with True show ?thesis by (simp add: u_start_new_process_def)
  next
    case (Inr launcher)
    show ?thesis
    proof (cases "cwd p")
      case (PList l)
      with True Inr show ?thesis by (simp add: u_start_new_process_def)
    next
      case (PStr dir)
      show ?thesis
      proof (cases "popen w (cmd_line_of (executable p) launcher cmd) dir (my_env w cmd)")
        case (Inl e)
        with True Inr PStr show ?thesis by (simp add: u_start_new_process_def)
      next
        case r: (Inr res)
        obtain out err fin where res: "res = (out, err, fin)" by (cases res) auto
        note s = start_popen[OF True Inr PStr r[unfolded res] refl]
        from assms read_ready_failure show ?thesis
          unfolding s by fastforce
      qed
    qed
  qed
qed

lemma read_ready_eof:
  "fst (readline (p_stdout pr)) = [] \<Longrightarrow>
   fst (read_ready w pr p) =
     Inl (PyException (''Error starting backend process: '' @ concat (p_stderr pr)))"
  by (cases "p_stdout pr") (auto simp: read_ready_def)

text \<open>
  C7. A new proxy has the empty list as its \<open>get_sys_path\<close>, and a start that raises leaves
  \<open>get_sys_path\<close>, the started threads and the emitted events as they were. Once \<^verbatim>\<open>Popen\<close>
  has returned the child, one line is read from its stdout. At the end of the stream the
  start raises the exception "Error starting backend process: " followed by what stderr
  holds. A line that decodes to a message with a \<^verbatim>\<open>path\<close> makes the start succeed: the
  path is \<open>get_sys_path\<close>, the event \<^verbatim>\<open>BackendReady\<close> with the decoded message is emitted, the
  two listeners are started, and the rest of stdout is left unread.
\<close>

theorem handshake:
  "(CPythonProxy_init w opt = Inr p0 \<longrightarrow> get_sys_path p0 = PList []) \<and>
   (fst (u_start_new_process w cmd p) \<noteq> Inr () \<longrightarrow>
      get_sys_path (snd (u_start_new_process w cmd p)) = get_sys_path p \<and>
      threads (snd (u_start_new_process w cmd p)) = threads p \<and>
      events (snd (u_start_new_process w cmd p)) = events p) \<and>
   (path_exists w (executable p) \<and> prepare_launcher w = Inr launcher \<and> cwd p = PStr dir \<and>
    popen w (cmd_line_of (executable p) launcher cmd) dir (my_env w cmd) = Inr (out, err, fin) \<longrightarrow>
      (fst (readline out) = [] \<longrightarrow>
         fst (u_start_new_process w cmd p) =
           Inl (PyException (''Error starting backend process: '' @ concat err))) \<and>
      (out = line # rest \<and> line \<noteq> [] \<and> parse_message w line = Inr m \<and> m ''path'' = Some v \<longrightarrow>
         fst (u_start_new_process w cmd p) = Inr () \<and>
         get_sys_path (snd (u_start_new_process w cmd p)) = v \<and>
         events (snd (u_start_new_process w cmd p)) = events p @ [(''BackendReady'', m)] \<and>
         threads (snd (u_start_new_process w cmd p)) =
           threads p @ [''_listen_stdout'', ''_listen_stderr''] \<and>
         map_option p_stdout (proc (snd (u_start_new_process w cmd p))) = Some rest))"
proof (intro conjI impI)
  assume "CPythonProxy_init w opt = Inr p0"
  then show "get_sys_path p0 = PList []"
    by (auto simp: CPythonProxy_init_def get_sys_path_def split: sum.splits if_splits)
next
  assume f: "fst (u_start_new_process w cmd p) \<noteq> Inr ()"
  from start_failure[OF f]
  show "get_sys_path (snd (u_start_new_process w cmd p)) = get_sys_path p"
    and "threads (snd (u_start_new_process w cmd p)) = threads p"
    and "events (snd (u_start_new_process w cmd p)) = events p"
    by (simp_all add: get_sys_path_def)
next
  assume a: "path_exists w (executable p) \<and> prepare_launcher w = Inr launcher \<and> cwd p = PStr dir \<and>
    popen w (cmd_line_of (executable p) launcher cmd) dir (my_env w cmd) = Inr (out, err, fin)"
  then have s: "u_start_new_process w cmd p =
      read_ready w \<lparr>p_cmd_line = cmd_line_of (executable p) launcher cmd, p_cwd = dir,
                p_env = my_env w cmd, p_stdin = [], p_stdout = out, p_stderr = err,
                p_finished = fin\<rparr>
        (p\<lparr>message_queue := Some [],
           proc := Some \<lparr>p_cmd_line = cmd_line_of (executable p) launcher cmd, p_cwd = dir,
                p_env = my_env w cmd, p_stdin = [], p_stdout = out, p_stderr = err,
                p_finished = fin\<rparr>,
           spawned := spawned p @ [\<lparr>p_cmd_line = cmd_line_of (executable p) launcher cmd, p_cwd = dir,
                p_env = my_env w cmd, p_stdin = [], p_stdout = out, p_stderr = err,
                p_finished = fin\<rparr>]\<rparr>)"
    by (intro start_popen) auto
  {
    assume "fst (readline out) = []"
    then show "fst (u_start_new_process w cmd p) =
           Inl (PyException (''Error starting backend process: '' @ concat err))"
      unfolding s by (subst read_ready_eof) simp_all
  }
  {
    assume b: "out = line # rest \<and> line \<noteq> [] \<and> parse_message w line = Inr m \<and> m ''path'' = Some v"
    then have r: "u_start_new_process w cmd p =
      (Inr (), p\<lparr>message_queue := Some [],
           proc := Some \<lparr>p_cmd_line = cmd_line_of (executable p) launcher cmd, p_cwd = dir,
                p_env = my_env w cmd, p_stdin = [], p_stdout = rest, p_stderr = err,
                p_finished = fin\<rparr>,
           spawned := spawned p @ [\<lparr>p_cmd_line = cmd_line_of (executable p) launcher cmd, p_cwd = dir,
                p_env = my_env w cmd, p_stdin = [], p_stdout = out, p_stderr = err,
                p_finished = fin\<rparr>],
           sys_path := v, events := events p @ [(''BackendReady'', m)],
           threads := threads p @ [''_listen_stdout'', ''_listen_stderr'']\<rparr>)"
      unfolding s by (subst read_ready_ok[where line = line and rest = rest and m = m and v = v]) simp_all
    show "fst (u_start_new_process w cmd p) = Inr ()"
      and "get_sys_path (snd (u_start_new_process w cmd p)) = v"
      and "events (snd (u_start_new_process w cmd p)) = events p @ [(''BackendReady'', m)]"
      and "threads (snd (u_start_new_process w cmd p)) =
           threads p @ [''_listen_stdout'', ''_listen_stderr'']"
      and "map_option p_stdout (proc (snd (u_start_new_process w cmd p))) = Some rest"
      unfolding r by (simp_all add: get_sys_path_def)
  }
qed

theorem handshake_witness:
  "CPythonProxy_init sample_world ''default'' = Inr (sample_proxy\<lparr>state := None\<rparr>) \<and>
   get_sys_path (sample_proxy\<lparr>state := None\<rparr>) = PList [] \<and>
   fst (u_start_new_process sample_world reset_command sample_proxy) = Inr () \<and>
   get_sys_path (snd (u_start_new_process sample_world reset_command sample_proxy)) =
     PList [''/usr/lib/python3''] \<and>
   threads (snd (u_start_new_process sample_world reset_command sample_proxy)) =
     [''_listen_stdout'', ''_listen_stderr''] \<and>
   map_option p_stdout (proc (snd (u_start_new_process sample_world reset_command sample_proxy))) =
     Some [''out:hello'', ''done''] \<and>
   fst (u_start_new_process silent_world reset_command sample_proxy) =
     Inl (PyException ''Error starting backend process: No module named thonny'') \<and>
   threads (snd (u_start_new_process silent_world reset_command sample_proxy)) = [] \<and>
   get_sys_path (snd (u_start_new_process silent_world reset_command sample_proxy)) = PList []"
proof -
  have i: "CPythonProxy_init sample_world ''default'' = Inr (sample_proxy\<lparr>state := None\<rparr>)"
    by (simp add: CPythonProxy_init_def sample_world_def sample_proxy_def)
  have a: "path_exists sample_world (executable sample_proxy) \<and>
      prepare_launcher sample_world = Inr ''/home/u/.thonny/backend/backend_launcher.py'' \<and>
      cwd sample_proxy = PStr ''/home/u'' \<and>
      popen sample_world
        (cmd_line_of (executable sample_proxy) ''/home/u/.thonny/backend/backend_launcher.py''
           reset_command) ''/home/u'' (my_env sample_world reset_command) =
        Inr ([''ready'', ''out:hello'', ''done''], [], False)"
    by (simp add: sample_world_def sample_proxy_def)
  have b: "[''ready'', ''out:hello'', ''done''] = ''ready'' # [''out:hello'', ''done''] \<and> ''ready'' \<noteq> [] \<and>
      parse_message sample_world ''ready'' =
        Inr [''message_type'' \<mapsto> PStr ''BackendReady'', ''path'' \<mapsto> PList [''/usr/lib/python3'']] \<and>
      [''message_type'' \<mapsto> PStr ''BackendReady'', ''path'' \<mapsto> PList [''/usr/lib/python3'']] ''path'' =
        Some (PList [''/usr/lib/python3''])"
    by (simp add: sample_world_def sample_parse_def)
  have c: "path_exists silent_world (executable sample_proxy) \<and>
      prepare_launcher silent_world = Inr ''/home/u/.thonny/backend/backend_launcher.py'' \<and>
      cwd sample_proxy = PStr ''/home/u'' \<and>
      popen silent_world
        (cmd_line_of (executable sample_proxy) ''/home/u/.thonny/backend/backend_launcher.py''
           reset_command) ''/home/u'' (my_env silent_world reset_command) =
        Inr ([], [''No module named thonny''], True)"
    by (simp add: silent_world_def sample_world_def sample_proxy_def)
  have d: "fst (readline ([] :: string list)) = []"
    by simp
  note h1 = handshake [where w = sample_world and opt = "''default''"
      and ?p0.0 = "sample_proxy\<lparr>state := None\<rparr>" and cmd = reset_command and p = sample_proxy
      and launcher = "''/home/u/.thonny/backend/backend_launcher.py''" and dir = "''/home/u''"
      and out = "[''ready'', ''out:hello'', ''done'']" and err = "[]" and fin = False
      and line = "''ready''" and rest = "[''out:hello'', ''done'']"
      and m = "[''message_type'' \<mapsto> PStr ''BackendReady'', ''path'' \<mapsto> PList [''/usr/lib/python3'']]"
      and v = "PList [''/usr/lib/python3'']"]
  note h2 = handshake [where w = silent_world and opt = "''default''"
      and ?p0.0 = "sample_proxy\<lparr>state := None\<rparr>" and cmd = reset_command and p = sample_proxy
      and launcher = "''/home/u/.thonny/backend/backend_launcher.py''" and dir = "''/home/u''"
      and out = "[]" and err = "[''No module named thonny'']" and fin = True
      and line = "''ready''" and rest = "[]" and m = Map.empty and v = "PList []"]
  have e: "fst (u_start_new_process silent_world reset_command sample_proxy) =
     Inl (PyException ''Error starting backend process: No module named thonny'')"
    using h2 c d by simp
  then have f: "fst (u_start_new_process silent_world reset_command sample_proxy) \<noteq> Inr ()"
    by simp
  have g: "get_sys_path sample_proxy = PList []" "threads sample_proxy = []"
    by (simp_all add: get_sys_path_def sample_proxy_def)
  have "get_sys_path (sample_proxy\<lparr>state := None\<rparr>) = PList []"
    using h1 i by blast
  moreover have "fst (u_start_new_process sample_world reset_command sample_proxy) = Inr () \<and>
   get_sys_path (snd (u_start_new_process sample_world reset_command sample_proxy)) =
     PList [''/usr/lib/python3''] \<and>
   threads (snd (u_start_new_process sample_world reset_command sample_proxy)) =
     [''_listen_stdout'', ''_listen_stderr''] \<and>
   map_option p_stdout (proc (snd (u_start_new_process sample_world reset_command sample_proxy))) =
     Some [''out:hello'', ''done'']"
    using h1 a b g by simp
  moreover have "threads (snd (u_start_new_process silent_world reset_command sample_proxy)) = [] \<and>
   get_sys_path (snd (u_start_new_process silent_world reset_command sample_proxy)) = PList []"
    using h2 f g by simp
  ultimately show ?thesis using i e by simp
qed

subsection \<open>The stdout listener and lines that do not decode\<close>

lemma listen_step_ok:
  assumes "proc p = Some pr" and "p_stdout pr = l # ls" and "l \<noteq> []"
    and "parse_message w l = Inr m" and "message_queue p = Some q"
  shows "\<exists>p'. u_listen_stdout w p = u_listen_stdout w p' \<and>
              proc p' = Some (pr\<lparr>p_stdout := ls\<rparr>) \<and> message_queue p' = Some (q @ [m])"
proof -
  let ?p1 = "p\<lparr>proc := Some (pr\<lparr>p_stdout := ls\<rparr>)\<rparr>"
  let ?p2 = "(case m ''cwd'' of None \<Rightarrow> ?p1 | Some c \<Rightarrow> ?p1\<lparr>cwd := c\<rparr>)\<lparr>message_queue := Some (q @ [m])\<rparr>"
  have r: "listen_read p = (Inr l, ?p1)"
    using assms by (simp add: listen_read_def)
  have d: "listen_deliver w l ?p1 = (Inr (), ?p2)"
    using assms by (auto simp: listen_deliver_def Let_def split: option.splits)
  have "u_listen_stdout w p = u_listen_stdout w ?p2"
    by (subst u_listen_stdout.simps) (simp add: r d assms(3))
  moreover have "proc ?p2 = Some (pr\<lparr>p_stdout := ls\<rparr>)" "message_queue ?p2 = Some (q @ [m])"
    by (simp_all split: option.splits)
  ultimately show ?thesis by blast
qed

lemma listen_step_bad:
  assumes "proc p = Some pr" and "p_stdout pr = l # ls" and "l \<noteq> []"
    and "parse_message w l = Inl e"
  shows "u_listen_stdout w p = (Inl e, p\<lparr>proc := Some (pr\<lparr>p_stdout := ls\<rparr>)\<rparr>)"
proof -
  let ?p1 = "p\<lparr>proc := Some (pr\<lparr>p_stdout := ls\<rparr>)\<rparr>"
  have r: "listen_read p = (Inr l, ?p1)"
    using assms by (simp add: listen_read_def)
  have d: "listen_deliver w l ?p1 = (Inl e, ?p1)"
    using assms by (simp add: listen_deliver_def)
  show ?thesis
    by (subst u_listen_stdout.simps) (simp add: r d assms(3))
qed

lemma listen_eof:
  assumes "proc p = Some pr" and "p_stdout pr = []"
  shows "u_listen_stdout w p = (Inr (), p)"
proof -
  have r: "listen_read p = (Inr [], p)"
    using assms by (simp add: listen_read_def)
  show ?thesis
    by (subst u_listen_stdout.simps) (simp add: r)
qed

lemma listen_prefix:
  assumes "proc p = Some pr" and "p_stdout pr = good @ rest" and "message_queue p = Some q"
    and "list_all (decodes w) good"
  shows "\<exists>p'. u_listen_stdout w p = u_listen_stdout w p' \<and>
              proc p' = Some (pr\<lparr>p_stdout := rest\<rparr>) \<and>
              message_queue p' = Some (q @ map (decoded w) good)"
  using assms
proof (induction good arbitrary: p pr q)
  case Nil
  then have "proc p = Some (pr\<lparr>p_stdout := rest\<rparr>)" by simp
  with Nil show ?case by auto
next
  case (Cons l ls)
  from Cons.prems(4) obtain m where m: "l \<noteq> []" "parse_message w l = Inr m"
    by (cases "parse_message w l") (auto simp: decodes_def)
  then have dm: "decoded w l = m" by (simp add: decoded_def)
  from Cons.prems have o: "p_stdout pr = l # (ls @ rest)" by simp
  from listen_step_ok[OF Cons.prems(1) o m Cons.prems(3)]
  obtain p1 where p1: "u_listen_stdout w p = u_listen_stdout w p1"
      "proc p1 = Some (pr\<lparr>p_stdout := ls @ rest\<rparr>)" "message_queue p1 = Some (q @ [m])"
    by blast
  have "\<exists>p'. u_listen_stdout w p1 = u_listen_stdout w p' \<and>
              proc p' = Some (pr\<lparr>p_stdout := ls @ rest, p_stdout := rest\<rparr>) \<and>
              message_queue p' = Some ((q @ [m]) @ map (decoded w) ls)"
    using Cons.prems(4) by (intro Cons.IH[OF p1(2) _ p1(3)]) simp_all
  with p1(1) dm show ?case by auto
qed

lemma sample_decodes:
  "decodes sample_world ''out:a''" "decodes sample_world ''out:b''"
  "decoded sample_world ''out:a'' = ProgramOutput ''stdout'' ''a''"
  "decoded sample_world ''out:b'' = ProgramOutput ''stdout'' ''b''"
  "parse_message sample_world ''garbage'' = Inl (MalformedMessage ''garbage'')"
  by (simp_all add: decodes_def decoded_def sample_world_def sample_parse_def)

text \<open>
  C4, as amended. The stdout listener decodes the lines it reads and appends them to the
  message queue in the order it read them. When every line up to the end of the stream
  decodes, the loop ends normally with all of them in the queue. The first line that does
  not decode ends the loop with the exception of \<^verbatim>\<open>parse_message\<close>: the lines before it are
  in the queue, and the lines after it are left unread.
\<close>

theorem listener_stops_at_undecodable_line:
  assumes "proc p = Some pr" and "message_queue p = Some q"
    and "list_all (decodes w) good"
  shows "(p_stdout pr = good \<longrightarrow>
            fst (u_listen_stdout w p) = Inr () \<and>
            message_queue (snd (u_listen_stdout w p)) = Some (q @ map (decoded w) good)) \<and>
         (p_stdout pr = good @ bad # later \<and> bad \<noteq> [] \<and> parse_message w bad = Inl e \<longrightarrow>
            fst (u_listen_stdout w p) = Inl e \<and>
            message_queue (snd (u_listen_stdout w p)) = Some (q @ map (decoded w) good) \<and>
            map_option p_stdout (proc (snd (u_listen_stdout w p))) = Some later)"
proof (intro conjI impI)
  assume "p_stdout pr = good"
  then have "p_stdout pr = good @ []" by simp
  from listen_prefix[OF assms(1) this assms(2,3)]
  obtain p' where p': "u_listen_stdout w p = u_listen_stdout w p'"
      "proc p' = Some (pr\<lparr>p_stdout := []\<rparr>)" "message_queue p' = Some (q @ map (decoded w) good)"
    by blast
  have "u_listen_stdout w p' = (Inr (), p')"
    by (rule listen_eof[OF p'(2)]) simp
  with p' show "fst (u_listen_stdout w p) = Inr ()"
    and "message_queue (snd (u_listen_stdout w p)) = Some (q @ map (decoded w) good)"
    by simp_all
next
  assume a: "p_stdout pr = good @ bad # later \<and> bad \<noteq> [] \<and> parse_message w bad = Inl e"
  from listen_prefix[OF assms(1) _ assms(2,3), of "bad # later"] a
  obtain p' where p': "u_listen_stdout w p = u_listen_stdout w p'"
      "proc p' = Some (pr\<lparr>p_stdout := bad # later\<rparr>)"
      "message_queue p' = Some (q @ map (decoded w) good)"
    by blast
  have "u_listen_stdout w p' =
          (Inl e, p'\<lparr>proc := Some (pr\<lparr>p_stdout := bad # later, p_stdout := later\<rparr>)\<rparr>)"
    using a by (intro listen_step_bad[OF p'(2)]) (simp, blast, blast)
  with p' show "fst (u_listen_stdout w p) = Inl e"
    and "message_queue (snd (u_listen_stdout w p)) = Some (q @ map (decoded w) good)"
    and "map_option p_stdout (proc (snd (u_listen_stdout w p))) = Some later"
    by simp_all
qed

text \<open>
  The claim as stated fails: after the line \<^verbatim>\<open>garbage\<close> the listener is over, and the
  line \<^verbatim>\<open>out:b\<close>, which decodes, stays on the pipe and never reaches the queue.
\<close>

theorem listener_stops_at_undecodable_line_counterexample:
  "decodes sample_world ''out:b'' \<and>
   map_option p_stdout (proc listening_proxy) = Some [''out:a'', ''garbage'', ''out:b''] \<and>
   fst (u_listen_stdout sample_world listening_proxy) = Inl (MalformedMessage ''garbage'') \<and>
   message_queue (snd (u_listen_stdout sample_world listening_proxy)) =
     Some [ProgramOutput ''stdout'' ''a''] \<and>
   map_option p_stdout (proc (snd (u_listen_stdout sample_world listening_proxy))) =
     Some [''out:b'']"
proof -
  have p: "proc listening_proxy = Some (sample_process\<lparr>p_stdout := [''out:a'', ''garbage'', ''out:b'']\<rparr>)"
    and q: "message_queue listening_proxy = Some []"
    by (simp_all add: listening_proxy_def running_proxy_def)
  from listen_prefix[OF p _ q, of "[''out:a'']" "[''garbage'', ''out:b'']" sample_world]
  obtain p' where p': "u_listen_stdout sample_world listening_proxy = u_listen_stdout sample_world p'"
    "proc p' = Some (sample_process\<lparr>p_stdout := [''garbage'', ''out:b'']\<rparr>)"
    "message_queue p' = Some [ProgramOutput ''stdout'' ''a'']"
    by (auto simp: sample_decodes)
  have "u_listen_stdout sample_world p' =
      (Inl (MalformedMessage ''garbage''), p'\<lparr>proc := Some (sample_process\<lparr>p_stdout := [''out:b'']\<rparr>)\<rparr>)"
    using listen_step_bad[OF p'(2), of "''garbage''" "[''out:b'']" sample_world "MalformedMessage ''garbage''"]
    by (simp add: sample_decodes)
  with p' p show ?thesis
    by (simp add: sample_decodes)
qed

theorem listener_stops_at_undecodable_line_witness:
  "proc listening_proxy = Some (sample_process\<lparr>p_stdout := [''out:a'', ''garbage'', ''out:b'']\<rparr>) \<and>
   message_queue listening_proxy = Some [] \<and>
   list_all (decodes sample_world) [''out:a''] \<and>
   parse_message sample_world ''garbage'' = Inl (MalformedMessage ''garbage'') \<and>
   fst (u_listen_stdout sample_world listening_proxy) = Inl (MalformedMessage ''garbage'') \<and>
   message_queue (snd (u_listen_stdout sample_world listening_proxy)) =
     Some [ProgramOutput ''stdout'' ''a''] \<and>
   list_all (decodes sample_world) [''out:a'', ''out:b''] \<and>
   fst (u_listen_stdout sample_world
          (running_proxy\<lparr>proc := Some (sample_process\<lparr>p_stdout := [''out:a'', ''out:b'']\<rparr>)\<rparr>)) = Inr () \<and>
   message_queue (snd (u_listen_stdout sample_world
          (running_proxy\<lparr>proc := Some (sample_process\<lparr>p_stdout := [''out:a'', ''out:b'']\<rparr>)\<rparr>))) =
     Some [ProgramOutput ''stdout'' ''a'', ProgramOutput ''stdout'' ''b'']"
proof -
  have p: "proc listening_proxy = Some (sample_process\<lparr>p_stdout := [''out:a'', ''garbage'', ''out:b'']\<rparr>)"
    and q: "message_queue listening_proxy = Some []"
    by (simp_all add: listening_proxy_def running_proxy_def)
  have g: "list_all (decodes sample_world) [''out:a'']"
    by (simp add: sample_decodes)
  have p2: "proc (running_proxy\<lparr>proc := Some (sample_process\<lparr>p_stdout := [''out:a'', ''out:b'']\<rparr>)\<rparr>) =
      Some (sample_process\<lparr>p_stdout := [''out:a'', ''out:b'']\<rparr>)"
    and q2: "message_queue (running_proxy\<lparr>proc := Some (sample_process\<lparr>p_stdout := [''out:a'', ''out:b'']\<rparr>)\<rparr>) = Some []"
    by (simp_all add: running_proxy_def)
  have g2: "list_all (decodes sample_world) [''out:a'', ''out:b'']"
    by (simp add: sample_decodes)
  show ?thesis
    using p q g p2 q2 g2
      listener_stops_at_undecodable_line [OF p q g, where bad = "''garbage''"
        and later = "[''out:b'']" and e = "MalformedMessage ''garbage''"]
      listener_stops_at_undecodable_line [OF p2 q2 g2, where bad = "''garbage''"
        and later = "[]" and e = "MalformedMessage ''garbage''"]
    by (simp add: sample_decodes)
qed

subsection \<open>Killing and restarting\<close>

text \<open>
  In the control thread alone the queue is replaced as the specification says: killing a
  process that is alive drops the process and the queue, killing without a process or with
  a finished one changes nothing, every start installs the empty queue, and a fetch right
  after kill and start returns \<^verbatim>\<open>None\<close>.
\<close>

lemma kill_alive:
  "proc p = Some pr \<Longrightarrow> \<not> p_finished pr \<Longrightarrow>
   kill_current_process p = p\<lparr>killed := killed p @ [pr], proc := None, message_queue := None\<rparr>"
  by (simp add: kill_current_process_def)

lemma kill_finished:
  "proc p = None \<or> (\<exists>pr. proc p = Some pr \<and> p_finished pr) \<Longrightarrow> kill_current_process p = p"
  by (auto simp: kill_current_process_def)

lemma queue_start: "message_queue (snd (u_start_new_process w cmd p)) = Some []"
proof (cases "path_exists w (executable p)")
  case False
  then show ?thesis by (simp add: u_start_new_process_def)
next
  case True
  show ?thesis
  proof (cases "prepare_launcher w")
    case (Inl e)
    with True show ?thesis by (simp add: u_start_new_process_def)
  next
    case (Inr launcher)
    show ?thesis
    proof (cases "cwd p")
      case (PList l)
      with True Inr show ?thesis by (simp add: u_start_new_process_def)
    next
      case (PStr dir)
      show ?thesis
      proof (cases "popen w (cmd_line_of (executable p) launcher cmd) dir (my_env w cmd)")
        case (Inl e)
        with True Inr PStr show ?thesis by (simp add: u_start_new_process_def)
      next
        case r: (Inr res)
        obtain out err fin where res: "res = (out, err, fin)" by (cases res) auto
        show ?thesis
          unfolding start_popen[OF True Inr PStr r[unfolded res] refl] by simp
      qed
    qed
  qed
qed

lemma fetch_after_restart:
  "fetch_next_message (snd (u_start_new_process w cmd (kill_current_process p))) =
     (Inr None, snd (u_start_new_process w cmd (kill_current_process p)))"
  by (simp add: fetch_next_message_def u_fetch_next_message_def queue_start)

lemma restart_sample:
  "send_command sample_world reset_command
     (running_proxy\<lparr>proc := Some (sample_process\<lparr>p_stdout := []\<rparr>)\<rparr>) =
   (Inr (),
    sample_proxy\<lparr>state := Some ''running'', message_queue := Some [],
      killed := [sample_process\<lparr>p_stdout := []\<rparr>],
      spawned := [\<lparr>p_cmd_line = cmd_line_of ''/usr/bin/python3''
                     ''/home/u/.thonny/backend/backend_launcher.py'' reset_command,
                   p_cwd = ''/home/u'', p_env = my_env sample_world reset_command, p_stdin = [],
                   p_stdout = [''ready'', ''out:hello'', ''done''], p_stderr = [],
                   p_finished = False\<rparr>],
      proc := Some \<lparr>p_cmd_line = cmd_line_of ''/usr/bin/python3''
                     ''/home/u/.thonny/backend/backend_launcher.py'' reset_command,
                   p_cwd = ''/home/u'', p_env = my_env sample_world reset_command,
                   p_stdin = [''Reset'' @ [CHR 0x0A]],
                   p_stdout = [''out:hello'', ''done''], p_stderr = [],
                   p_finished = False\<rparr>,
      sys_path := PList [''/usr/lib/python3''],
      events := [(''BackendReady'',
                  [''message_type'' \<mapsto> PStr ''BackendReady'',
                   ''path'' \<mapsto> PList [''/usr/lib/python3'']])],
      threads := [''_listen_stdout'', ''_listen_stderr'']\<rparr>)"
proof -
  let ?p = "sample_proxy\<lparr>state := Some ''running'', killed := [sample_process\<lparr>p_stdout := []\<rparr>]\<rparr>"
  have k: "kill_current_process (u_set_state ''running''
             (running_proxy\<lparr>proc := Some (sample_process\<lparr>p_stdout := []\<rparr>)\<rparr>)) = ?p"
    by (simp add: kill_current_process_def u_set_state_def running_proxy_def sample_proxy_def
          sample_process_def)
  have s: "u_start_new_process sample_world reset_command ?p =
      read_ready sample_world
        \<lparr>p_cmd_line = cmd_line_of ''/usr/bin/python3''
                     ''/home/u/.thonny/backend/backend_launcher.py'' reset_command,
                   p_cwd = ''/home/u'', p_env = my_env sample_world reset_command, p_stdin = [],
                   p_stdout = [''ready'', ''out:hello'', ''done''], p_stderr = [],
                   p_finished = False\<rparr>
        (?p\<lparr>message_queue := Some [],
           proc := Some \<lparr>p_cmd_line = cmd_line_of ''/usr/bin/python3''
                     ''/home/u/.thonny/backend/backend_launcher.py'' reset_command,
                   p_cwd = ''/home/u'', p_env = my_env sample_world reset_command, p_stdin = [],
                   p_stdout = [''ready'', ''out:hello'', ''done''], p_stderr = [],
                   p_finished = False\<rparr>,
           spawned := spawned ?p @ [\<lparr>p_cmd_line = cmd_line_of ''/usr/bin/python3''
                     ''/home/u/.thonny/backend/backend_launcher.py'' reset_command,
                   p_cwd = ''/home/u'', p_env = my_env sample_world reset_command, p_stdin = [],
                   p_stdout = [''ready'', ''out:hello'', ''done''], p_stderr = [],
                   p_finished = False\<rparr>]\<rparr>)"
    by (rule start_popen[where launcher = "''/home/u/.thonny/backend/backend_launcher.py''"
          and dir = "''/home/u''" and out = "[''ready'', ''out:hello'', ''done'']"
          and err = "[]" and fin = False])
       (simp_all add: sample_world_def sample_proxy_def)
  have r: "parse_message sample_world ''ready'' =
        Inr [''message_type'' \<mapsto> PStr ''BackendReady'', ''path'' \<mapsto> PList [''/usr/lib/python3'']]"
    by (simp add: sample_world_def sample_parse_def)
  have v: "[''message_type'' \<mapsto> PStr ''BackendReady'', ''path'' \<mapsto> PList [''/usr/lib/python3'']]
             ''path'' = Some (PList [''/usr/lib/python3''])"
    by simp
  have c: "cmd_class reset_command = ToplevelCommand" "command reset_command = Some ''Reset''"
    "serialize_message sample_world reset_command = ''Reset''"
    by (simp_all add: reset_command_def sample_world_def sample_serialize_def)
  show ?thesis
    unfolding send_command_def dispatch_def c
    apply (simp add: k del: fun_upd_apply)
    apply (subst s)
    apply (subst read_ready_ok[OF _ _ r v])
      apply (simp_all add: stdin_write_def sample_proxy_def del: fun_upd_apply)
    done
qed

text \<open>
  C8 fails on the code when the old listener is between its read and its append. The
  stdout listener of a running process has read the line \<^verbatim>\<open>out:old\<close> (line 549). The
  control thread sends a Reset: the process is killed, its queue is dropped, the new process
  is started with the empty queue. The old listener goes on with the line it holds (lines
  554-559) and appends the event to \<^verbatim>\<open>self._message_queue\<close>, which is the queue of the new
  process. The next fetch delivers the event of the killed process, although the new
  process never printed that line.
\<close>

theorem stale_event_after_restart:
  "listen_read running_proxy =
     (Inr ''out:old'', running_proxy\<lparr>proc := Some (sample_process\<lparr>p_stdout := []\<rparr>)\<rparr>) \<and>
   fst (send_command sample_world reset_command (snd (listen_read running_proxy))) = Inr () \<and>
   killed restarted_proxy = [sample_process\<lparr>p_stdout := []\<rparr>] \<and>
   message_queue restarted_proxy = Some [] \<and>
   map p_stdout (spawned restarted_proxy) = [[''ready'', ''out:hello'', ''done'']] \<and>
   fst (listen_deliver sample_world ''out:old'' restarted_proxy) = Inr () \<and>
   fst (fetch_next_message (snd (listen_deliver sample_world ''out:old'' restarted_proxy))) =
     Inr (Some (ProgramOutput ''stdout'' ''old''))"
proof -
  have r: "listen_read running_proxy =
     (Inr ''out:old'', running_proxy\<lparr>proc := Some (sample_process\<lparr>p_stdout := []\<rparr>)\<rparr>)"
    by (simp add: listen_read_def running_proxy_def sample_process_def)
  note s = restart_sample
  have q: "message_queue restarted_proxy = Some []"
    and k: "killed restarted_proxy = [sample_process\<lparr>p_stdout := []\<rparr>]"
    and n: "map p_stdout (spawned restarted_proxy) = [[''ready'', ''out:hello'', ''done'']]"
    unfolding restarted_proxy_def r snd_conv s by simp_all
  have o: "parse_message sample_world ''out:old'' = Inr (ProgramOutput ''stdout'' ''old'')"
    by (simp add: sample_world_def sample_parse_def)
  have c: "ProgramOutput ''stdout'' ''old'' ''cwd'' = None"
    by (simp add: ProgramOutput_def)
  have d: "listen_deliver sample_world ''out:old'' restarted_proxy =
      (Inr (), restarted_proxy\<lparr>message_queue := Some [ProgramOutput ''stdout'' ''old'']\<rparr>)"
    by (simp add: listen_deliver_def o c q)
  have t: "ProgramOutput ''stdout'' ''old'' ''message_type'' = Some (PStr ''ProgramOutput'')"
    by (simp add: ProgramOutput_def)
  have f: "fst (fetch_next_message (restarted_proxy\<lparr>message_queue := Some [ProgramOutput ''stdout'' ''old'']\<rparr>)) =
     Inr (Some (ProgramOutput ''stdout'' ''old''))"
    by (simp add: fetch_next_message_def u_fetch_next_message_def getitem_def t)
  show ?thesis
    using q k n f by (simp add: r s d)
qed

subsection \<open>The command line of \<^verbatim>\<open>execute_script\<close>\<close>

lemma whitespace_simps [simp]:
  "\<not> whitespace (CHR 0x27)" "\<not> whitespace (CHR 0x22)" "\<not> whitespace (CHR 0x5C)"
  "whitespace (CHR '' '')"
  by (simp_all add: whitespace_def)

lemma safe_char_plain:
  "safe_char c \<Longrightarrow> \<not> whitespace c \<and> c \<noteq> CHR 0x27 \<and> c \<noteq> CHR 0x22 \<and> c \<noteq> CHR 0x5C"
  by (auto simp: safe_char_def whitespace_def)

lemma tokens_safe:
  "list_all safe_char s \<Longrightarrow> tokens InWord tok (s @ rest) = tokens InWord (tok @ s) rest"
  by (induction s arbitrary: tok) (auto dest: safe_char_plain)

lemma tokens_single:
  "tokens InSingle tok (concat (map quote_char s) @ CHR 0x27 # rest) = tokens InWord (tok @ s) rest"
  by (induction s arbitrary: tok) (auto simp: quote_char_def)

lemma tokens_quote:
  "tokens Between t (shlex_quote s @ rest) = tokens InWord s rest"
proof (cases "s = []")
  case True
  then show ?thesis by (simp add: shlex_quote_def)
next
  case False
  show ?thesis
  proof (cases "list_all safe_char s")
    case True
    from False obtain c cs where s: "s = c # cs" by (cases s) auto
    with True have "tokens Between t (shlex_quote s @ rest) = tokens InWord [c] (cs @ rest)"
      using safe_char_plain[of c] by (simp add: shlex_quote_def)
    also have "\<dots> = tokens InWord ([c] @ cs) rest"
      using True s by (intro tokens_safe) simp
    finally show ?thesis using s by simp
  next
    case unsafe: False
    with False show ?thesis
      using tokens_single[of "[]" s rest] by (simp add: shlex_quote_def)
  qed
qed

lemma tokens_arguments:
  "tokens InWord tok (concat (map (\<lambda>arg. '' '' @ shlex_quote arg) as)) = Inr (tok # as)"
proof (induction as arbitrary: tok)
  case Nil
  show ?case by simp
next
  case (Cons a as)
  have "tokens InWord tok (concat (map (\<lambda>arg. '' '' @ shlex_quote arg) (a # as))) =
        (case tokens Between [] (shlex_quote a @ concat (map (\<lambda>arg. '' '' @ shlex_quote arg) as)) of
           Inl e \<Rightarrow> Inl e | Inr ts \<Rightarrow> Inr (tok # ts))"
    by simp
  also have "\<dots> = Inr (tok # a # as)"
    by (simp only: tokens_quote Cons.IH sum.case)
  finally show ?case .
qed

lemma shlex_round_trip:
  "shlex_split (shlex_quote a @ concat (map (\<lambda>arg. '' '' @ shlex_quote arg) as)) = Inr (a # as)"
  unfolding shlex_split_def tokens_quote by (rule tokens_arguments)

lemma append_args_concat:
  "append_args l as = l @ concat (map (\<lambda>arg. '' '' @ shlex_quote arg) as)"
  by (induction as arbitrary: l) simp_all

lemma tokens_arguments_line:
  "tokens InWord tok (concat (map (\<lambda>arg. '' '' @ shlex_quote arg) as) @ [CHR 0x0A]) = Inr (tok # as)"
proof (induction as arbitrary: tok)
  case Nil
  show ?case by (simp add: whitespace_def)
next
  case (Cons a as)
  have "tokens InWord tok (concat (map (\<lambda>arg. '' '' @ shlex_quote arg) (a # as)) @ [CHR 0x0A]) =
        (case tokens Between [] (shlex_quote a @ concat (map (\<lambda>arg. '' '' @ shlex_quote arg) as) @ [CHR 0x0A]) of
           Inl e \<Rightarrow> Inl e | Inr ts \<Rightarrow> Inr (tok # ts))"
    by simp
  also have "\<dots> = Inr (tok # a # as)"
    by (simp only: tokens_quote Cons.IH sum.case)
  finally show ?case .
qed

lemma split_instruction:
  assumes "list_all safe_char name"
  shows "shlex_split (instruction name as) = Inr ((''%'' @ name) # as)"
proof -
  have "safe_char (CHR ''%'')" by (simp add: safe_char_def)
  then have p: "\<not> whitespace (CHR ''%'')" "CHR ''%'' \<noteq> CHR 0x27" "CHR ''%'' \<noteq> CHR 0x22"
      "CHR ''%'' \<noteq> CHR 0x5C"
    using safe_char_plain[of "CHR ''%''"] by simp_all
  have "shlex_split (instruction name as) =
        tokens InWord ''%'' (name @ concat (map (\<lambda>arg. '' '' @ shlex_quote arg) as) @ [CHR 0x0A])"
    using p by (simp add: shlex_split_def instruction_def)
  also have "\<dots> = tokens InWord (''%'' @ name) (concat (map (\<lambda>arg. '' '' @ shlex_quote arg) as) @ [CHR 0x0A])"
    by (rule tokens_safe[OF assms])
  also have "\<dots> = Inr ((''%'' @ name) # as)"
    by (rule tokens_arguments_line)
  finally show ?thesis .
qed

lemma quote_samples:
  "shlex_quote ''prog.py'' = ''prog.py''"
  "shlex_quote ''a b'' = [CHR 0x27] @ ''a b'' @ [CHR 0x27]"
  "shlex_quote ''/home/u/my dir'' = [CHR 0x27] @ ''/home/u/my dir'' @ [CHR 0x27]"
  "list_all safe_char ''Run''"
  by (simp_all add: shlex_quote_def safe_char_def quote_char_def)

lemma relpath_samples:
  "sample_relpath ''/home/u/prog.py'' ''/home/u'' = Inr ''prog.py''"
  "sample_relpath ''/home/u/my dir/prog.py'' ''/home/u/my dir'' = Inr ''prog.py''"
  by (simp_all add: sample_relpath_def)

text \<open>
  C6. For a proxy whose working directory is \<open>here\<close>: with no directory requested, or with
  \<open>here\<close> requested, \<open>execute_script\<close> submits the one instruction line of the command, with
  the relative path of the script and every argument shell-quoted, and no \<^verbatim>\<open>%cd\<close> before
  it; with another directory requested it submits exactly one \<^verbatim>\<open>%cd\<close> line for that
  directory and then the instruction line. Each of the two lines goes through the
  shell-style word splitting back to the command word and the unquoted arguments, whatever
  blanks and quotes the paths and arguments contain.
\<close>

theorem execute_script_command_line:
  assumes "cwd p = PStr here"
  shows "((working_directory = None \<or> working_directory = Some here) \<and>
          relpath script_path here = Inr rel \<longrightarrow>
            execute_script relpath p script_path script_args working_directory command_name =
              Inr (instruction command_name (rel # script_args))) \<and>
         (working_directory = Some wd \<and> wd \<noteq> here \<and> relpath script_path wd = Inr rel \<longrightarrow>
            execute_script relpath p script_path script_args working_directory command_name =
              Inr (instruction ''cd'' [wd] @ instruction command_name (rel # script_args))) \<and>
         shlex_split (instruction ''cd'' [wd]) = Inr [''%cd'', wd] \<and>
         (list_all safe_char command_name \<longrightarrow>
            shlex_split (instruction command_name (rel # script_args)) =
              Inr ((''%'' @ command_name) # rel # script_args))"
proof (intro conjI impI)
  assume "(working_directory = None \<or> working_directory = Some here) \<and>
          relpath script_path here = Inr rel"
  with assms show "execute_script relpath p script_path script_args working_directory command_name =
              Inr (instruction command_name (rel # script_args))"
    by (auto simp: execute_script_def instruction_def append_args_concat)
next
  assume "working_directory = Some wd \<and> wd \<noteq> here \<and> relpath script_path wd = Inr rel"
  with assms show "execute_script relpath p script_path script_args working_directory command_name =
              Inr (instruction ''cd'' [wd] @ instruction command_name (rel # script_args))"
    by (auto simp: execute_script_def instruction_def append_args_concat)
next
  have "list_all safe_char ''cd''" by (simp add: safe_char_def)
  from split_instruction[OF this, of "[wd]"]
  show "shlex_split (instruction ''cd'' [wd]) = Inr [''%cd'', wd]" by simp
next
  assume "list_all safe_char command_name"
  then show "shlex_split (instruction command_name (rel # script_args)) =
              Inr ((''%'' @ command_name) # rel # script_args)"
    by (rule split_instruction)
qed

theorem execute_script_command_line_witness:
  "cwd sample_proxy = PStr ''/home/u'' \<and>
   execute_script sample_relpath sample_proxy ''/home/u/prog.py'' [''a b''] (Some ''/home/u'') ''Run'' =
     Inr (''%Run prog.py '' @ [CHR 0x27] @ ''a b'' @ [CHR 0x27, CHR 0x0A]) \<and>
   execute_script sample_relpath sample_proxy ''/home/u/my dir/prog.py'' [''a b'']
       (Some ''/home/u/my dir'') ''Run'' =
     Inr (''%cd '' @ [CHR 0x27] @ ''/home/u/my dir'' @ [CHR 0x27, CHR 0x0A] @
          ''%Run prog.py '' @ [CHR 0x27] @ ''a b'' @ [CHR 0x27, CHR 0x0A]) \<and>
   shlex_split (''%cd '' @ [CHR 0x27] @ ''/home/u/my dir'' @ [CHR 0x27, CHR 0x0A]) =
     Inr [''%cd'', ''/home/u/my dir''] \<and>
   shlex_split (''%Run prog.py '' @ [CHR 0x27] @ ''a b'' @ [CHR 0x27, CHR 0x0A]) =
     Inr [''%Run'', ''prog.py'', ''a b'']"
proof -
  have c: "cwd sample_proxy = PStr ''/home/u''"
    by (simp add: sample_proxy_def)
  have i1: "instruction ''Run'' [''prog.py'', ''a b''] =
      ''%Run prog.py '' @ [CHR 0x27] @ ''a b'' @ [CHR 0x27, CHR 0x0A]"
    by (simp add: instruction_def quote_samples)
  have i2: "instruction ''cd'' [''/home/u/my dir''] =
      ''%cd '' @ [CHR 0x27] @ ''/home/u/my dir'' @ [CHR 0x27, CHR 0x0A]"
    by (simp add: instruction_def quote_samples)
  have d: "''/home/u/my dir'' \<noteq> ''/home/u''"
    by simp
  note t1 = execute_script_command_line [OF c, where working_directory = "Some ''/home/u''"
      and relpath = sample_relpath and script_path = "''/home/u/prog.py''" and rel = "''prog.py''"
      and script_args = "[''a b'']" and command_name = "''Run''" and wd = "''/home/u/my dir''"]
  note t2 = execute_script_command_line [OF c, where working_directory = "Some ''/home/u/my dir''"
      and relpath = sample_relpath and script_path = "''/home/u/my dir/prog.py''"
      and rel = "''prog.py''" and script_args = "[''a b'']" and command_name = "''Run''"
      and wd = "''/home/u/my dir''"]
  have a: "execute_script sample_relpath sample_proxy ''/home/u/prog.py'' [''a b''] (Some ''/home/u'') ''Run'' =
     Inr (instruction ''Run'' [''prog.py'', ''a b''])"
    using t1 relpath_samples by blast
  have b: "execute_script sample_relpath sample_proxy ''/home/u/my dir/prog.py'' [''a b'']
       (Some ''/home/u/my dir'') ''Run'' =
     Inr (instruction ''cd'' [''/home/u/my dir''] @ instruction ''Run'' [''prog.py'', ''a b''])"
    using t2 relpath_samples d by blast
  have s1: "shlex_split (instruction ''cd'' [''/home/u/my dir'']) = Inr [''%cd'', ''/home/u/my dir'']"
    using t2 by blast
  have s2: "shlex_split (instruction ''Run'' [''prog.py'', ''a b'']) =
      Inr [''%Run'', ''prog.py'', ''a b'']"
    using t2 quote_samples(4) by simp
  show ?thesis
    using c a b s1 s2 unfolding i1 i2 by simp
qed

end
